theory Spec2Isabelle
  imports Main "HOL-Library.Log_Nat"
begin

section \<open>The Number type of the host language\<close>

text \<open>
  The calculator is written in TypeScript; its operands are values of the language's
  Number type, the IEEE-754 binary64 doubles. A finite value is kept as sign, integer
  significand and binary exponent, \<open>Fin neg m e\<close> standing for \<open>(- 1) ^ neg * m * 2 ^ e\<close>;
  the two zeros are \<open>Fin False 0 e\<close> and \<open>Fin True 0 e\<close>. There is one NaN, as the
  language cannot tell NaN payloads apart.
\<close>

datatype number = NaN | Inf bool | Fin bool int int

text \<open>The values the type really has: significand below \<open>2 ^ 53\<close>, exponent between
  \<open>- 1074\<close> and \<open>971\<close>, and the least exponent whenever the significand is below
  \<open>2 ^ 52\<close> (subnormal numbers and zero).\<close>

fun is_double :: "number \<Rightarrow> bool" where
  "is_double (Fin neg m e) =
     (0 \<le> m \<and> m < 2 ^ 53 \<and> - 1074 \<le> e \<and> e \<le> 971 \<and> (m < 2 ^ 52 \<longrightarrow> e = - 1074))"
| "is_double _ = True"

fun is_finite :: "number \<Rightarrow> bool" where
  "is_finite (Fin neg m e) = True"
| "is_finite _ = False"

definition pos_zero :: number where
  "pos_zero = Fin False 0 (- 1074)"

definition neg_zero :: number where
  "neg_zero = Fin True 0 (- 1074)"

text \<open>The magnitude \<open>m * 2 ^ e\<close> as a fraction of two integers, and the same with its sign.\<close>

definition magnitude :: "int \<Rightarrow> int \<Rightarrow> int \<times> int" where
  "magnitude m e = (if e < 0 then (m, 2 ^ nat (- e)) else (m * 2 ^ nat e, 1))"

definition signed :: "bool \<Rightarrow> int \<Rightarrow> int" where
  "signed neg a = (if neg then - a else a)"

text \<open>\<open>ilog2 p q\<close> is the integer part of the binary logarithm of \<open>p / q\<close>, for positive
  \<open>p\<close> and \<open>q\<close>.\<close>

definition ilog2 :: "int \<Rightarrow> int \<Rightarrow> int" where
  "ilog2 p q =
     (let l = bitlen p - bitlen q in
      if (if 0 \<le> l then q * 2 ^ nat l \<le> p else q \<le> p * 2 ^ nat (- l)) then l else l - 1)"

text \<open>
  Rounding of the positive real \<open>p / q\<close> to the nearest Number, ties to the even
  significand, \<open>2 ^ 1024\<close> and beyond becoming infinity: the conversion the language
  applies to the exact result of every arithmetic operation and to decimal literals.
\<close>

definition number_of_fraction :: "bool \<Rightarrow> int \<Rightarrow> int \<Rightarrow> number" where
  "number_of_fraction neg p q =
     (let e = max (ilog2 p q - 52) (- 1074);
          n = (if e < 0 then p * 2 ^ nat (- e) else p);
          d = (if e < 0 then q else q * 2 ^ nat e);
          k = n div d;
          r = n mod d;
          m = (if d < 2 * r \<or> (2 * r = d \<and> odd k) then k + 1 else k)
      in if m = 2 ^ 53 then (if 971 < e + 1 then Inf neg else Fin neg (2 ^ 52) (e + 1))
         else if 971 < e then Inf neg
         else Fin neg m e)"

text \<open>The same for a signed fraction \<open>a / d\<close> with \<open>0 < d\<close>; an exact zero takes the sign
  \<open>zneg\<close> that the operation prescribes for its zero results.\<close>

definition number_of_signed :: "bool \<Rightarrow> int \<Rightarrow> int \<Rightarrow> number" where
  "number_of_signed zneg a d =
     (if a = 0 then Fin zneg 0 (- 1074) else number_of_fraction (a < 0) \<bar>a\<bar> d)"

subsection \<open>Arithmetic and comparison\<close>

fun Number_unaryMinus :: "number \<Rightarrow> number" where
  "Number_unaryMinus NaN = NaN"
| "Number_unaryMinus (Inf s) = Inf (\<not> s)"
| "Number_unaryMinus (Fin s m e) = Fin (\<not> s) m e"

fun Number_add :: "number \<Rightarrow> number \<Rightarrow> number" where
  "Number_add NaN y = NaN"
| "Number_add x NaN = NaN"
| "Number_add (Inf s) (Inf t) = (if s = t then Inf s else NaN)"
| "Number_add (Inf s) (Fin t n f) = Inf s"
| "Number_add (Fin s m e) (Inf t) = Inf t"
| "Number_add (Fin s m e) (Fin t n f) =
     (let (a, c) = magnitude m e; (b, d) = magnitude n f
      in number_of_signed (s \<and> t) (signed s a * d + signed t b * c) (c * d))"

definition Number_subtract :: "number \<Rightarrow> number \<Rightarrow> number" where
  "Number_subtract x y = Number_add x (Number_unaryMinus y)"

fun Number_multiply :: "number \<Rightarrow> number \<Rightarrow> number" where
  "Number_multiply NaN y = NaN"
| "Number_multiply x NaN = NaN"
| "Number_multiply (Inf s) (Inf t) = Inf (s \<noteq> t)"
| "Number_multiply (Inf s) (Fin t n f) = (if n = 0 then NaN else Inf (s \<noteq> t))"
| "Number_multiply (Fin s m e) (Inf t) = (if m = 0 then NaN else Inf (s \<noteq> t))"
| "Number_multiply (Fin s m e) (Fin t n f) =
     (let (a, c) = magnitude m e; (b, d) = magnitude n f
      in number_of_signed (s \<noteq> t) (signed (s \<noteq> t) (a * b)) (c * d))"

fun Number_divide :: "number \<Rightarrow> number \<Rightarrow> number" where
  "Number_divide NaN y = NaN"
| "Number_divide x NaN = NaN"
| "Number_divide (Inf s) (Inf t) = NaN"
| "Number_divide (Inf s) (Fin t n f) = Inf (s \<noteq> t)"
| "Number_divide (Fin s m e) (Inf t) = Fin (s \<noteq> t) 0 (- 1074)"
| "Number_divide (Fin s m e) (Fin t n f) =
     (if n = 0 then (if m = 0 then NaN else Inf (s \<noteq> t))
      else let (a, c) = magnitude m e; (b, d) = magnitude n f
           in number_of_signed (s \<noteq> t) (signed (s \<noteq> t) (a * d)) (c * b))"

text \<open>Strict equality \<open>x === y\<close> on Numbers: NaN equals nothing, and otherwise the two
  denote the same real number or the same infinity; so the two zeros are equal.\<close>

fun Number_equal :: "number \<Rightarrow> number \<Rightarrow> bool" where
  "Number_equal NaN y = False"
| "Number_equal x NaN = False"
| "Number_equal (Inf s) (Inf t) = (s = t)"
| "Number_equal (Inf s) (Fin t n f) = False"
| "Number_equal (Fin s m e) (Inf t) = False"
| "Number_equal (Fin s m e) (Fin t n f) =
     (let (a, c) = magnitude m e; (b, d) = magnitude n f
      in signed s a * d = signed t b * c)"

fun isNaN :: "number \<Rightarrow> bool" where
  "isNaN NaN = True"
| "isNaN _ = False"

text \<open>Numbers of integer value, as the literals of the program and of the examples.\<close>

definition number_of_int :: "int \<Rightarrow> number" where
  "number_of_int i = number_of_signed False i 1"


section \<open>Strings of the host language\<close>

text \<open>
  A string is a list of characters. The model keeps the characters with codes below 256
  (ASCII and Latin-1), which hold every character the program compares its input with.
\<close>

definition nl :: string where
  "nl = [CHR 0x0A]"

text \<open>White space and line terminators, as \<open>trim\<close> and \<open>parseFloat\<close> skip them: tab,
  line feed, vertical tab, form feed, carriage return, space and no-break space.\<close>

definition is_whitespace :: "char \<Rightarrow> bool" where
  "is_whitespace c =
     (c \<in> set [CHR 0x09, CHR 0x0A, CHR 0x0B, CHR 0x0C, CHR 0x0D, CHR 0x20, CHR 0xA0])"

definition trimStart :: "string \<Rightarrow> string" where
  "trimStart s = dropWhile is_whitespace s"

definition trim :: "string \<Rightarrow> string" where
  "trim s = rev (dropWhile is_whitespace (rev (dropWhile is_whitespace s)))"

definition upper_case :: string where
  "upper_case = ''ABCDEFGHIJKLMNOPQRSTUVWXYZ'' @
     [CHR 0xC0, CHR 0xC1, CHR 0xC2, CHR 0xC3, CHR 0xC4, CHR 0xC5, CHR 0xC6, CHR 0xC7,
      CHR 0xC8, CHR 0xC9, CHR 0xCA, CHR 0xCB, CHR 0xCC, CHR 0xCD, CHR 0xCE, CHR 0xCF,
      CHR 0xD0, CHR 0xD1, CHR 0xD2, CHR 0xD3, CHR 0xD4, CHR 0xD5, CHR 0xD6,
      CHR 0xD8, CHR 0xD9, CHR 0xDA, CHR 0xDB, CHR 0xDC, CHR 0xDD, CHR 0xDE]"

definition lower_case :: string where
  "lower_case = ''abcdefghijklmnopqrstuvwxyz'' @
     [CHR 0xE0, CHR 0xE1, CHR 0xE2, CHR 0xE3, CHR 0xE4, CHR 0xE5, CHR 0xE6, CHR 0xE7,
      CHR 0xE8, CHR 0xE9, CHR 0xEA, CHR 0xEB, CHR 0xEC, CHR 0xED, CHR 0xEE, CHR 0xEF,
      CHR 0xF0, CHR 0xF1, CHR 0xF2, CHR 0xF3, CHR 0xF4, CHR 0xF5, CHR 0xF6,
      CHR 0xF8, CHR 0xF9, CHR 0xFA, CHR 0xFB, CHR 0xFC, CHR 0xFD, CHR 0xFE]"

definition toLowerCase :: "string \<Rightarrow> string" where
  "toLowerCase s =
     map (\<lambda>c. case map_of (zip upper_case lower_case) c of None \<Rightarrow> c | Some l \<Rightarrow> l) s"

subsection \<open>Decimal numerals\<close>

definition is_digit :: "char \<Rightarrow> bool" where
  "is_digit c = (c \<in> set ''0123456789'')"

definition digit_value :: "char \<Rightarrow> int" where
  "digit_value c = (case map_of (zip ''0123456789'' [0, 1, 2, 3, 4, 5, 6, 7, 8, 9]) c of
                      None \<Rightarrow> 0 | Some v \<Rightarrow> v)"

definition digits_value :: "string \<Rightarrow> int" where
  "digits_value s = foldl (\<lambda>a c. 10 * a + digit_value c) 0 s"

function decimal :: "int \<Rightarrow> string" where
  "decimal n = (if n < 10 then [''0123456789'' ! nat n]
                else decimal (n div 10) @ [''0123456789'' ! nat (n mod 10)])"
  by pat_completeness auto
termination
  by (relation "measure nat") auto

declare decimal.simps [simp del]

function ndigits :: "int \<Rightarrow> int" where
  "ndigits n = (if n < 10 then 1 else 1 + ndigits (n div 10))"
  by pat_completeness auto
termination
  by (relation "measure nat") auto

declare ndigits.simps [simp del]

subsection \<open>From text to Number: \<open>parseFloat\<close>\<close>

text \<open>The value of an exponent part (\<open>e\<close> or \<open>E\<close>, an optional sign, digits) at the head
  of the text, and \<open>0\<close> when there is none.\<close>

definition exponent_part :: "string \<Rightarrow> int" where
  "exponent_part s =
     (case s of
        [] \<Rightarrow> 0
      | c # r \<Rightarrow>
          if c = CHR ''e'' \<or> c = CHR ''E'' then
            (case r of
               [] \<Rightarrow> 0
             | g # r' \<Rightarrow>
                 if g = CHR ''+'' \<or> g = CHR ''-''
                 then signed (g = CHR ''-'') (digits_value (takeWhile is_digit r'))
                 else digits_value (takeWhile is_digit r))
          else 0)"

text \<open>The longest prefix that is an unsigned decimal literal (\<open>Infinity\<close>, or digits with
  an optional fraction and exponent), converted; NaN when no prefix is one.\<close>

definition unsigned_literal :: "bool \<Rightarrow> string \<Rightarrow> number" where
  "unsigned_literal neg s =
     (if take 8 s = ''Infinity'' then Inf neg
      else
        let ip = takeWhile is_digit s;
            r = dropWhile is_digit s;
            dot = (case r of [] \<Rightarrow> False | c # r' \<Rightarrow> c = CHR ''.'');
            fp = (if dot then takeWhile is_digit (tl r) else []);
            r' = (if dot then dropWhile is_digit (tl r) else r)
        in if ip = [] \<and> fp = [] then NaN
           else
             let ex = exponent_part r' - int (length fp);
                 ds = digits_value (ip @ fp)
             in if ds = 0 then Fin neg 0 (- 1074)
                else if ex < 0 then number_of_fraction neg ds (10 ^ nat (- ex))
                else number_of_fraction neg (ds * 10 ^ nat ex) 1)"

definition parseFloat :: "string \<Rightarrow> number" where
  "parseFloat s =
     (case trimStart s of
        [] \<Rightarrow> NaN
      | c # r \<Rightarrow>
          if c = CHR ''-'' then unsigned_literal True r
          else if c = CHR ''+'' then unsigned_literal False r
          else unsigned_literal False (c # r))"

subsection \<open>From Number to text\<close>

text \<open>\<open>decimal_exponent p q\<close> is the \<open>n\<close> with \<open>10 ^ (n - 1) \<le> p / q < 10 ^ n\<close>.\<close>

definition decimal_exponent :: "int \<Rightarrow> int \<Rightarrow> int" where
  "decimal_exponent p q =
     (let l = ndigits p - ndigits q in
      if (if 0 \<le> l then q * 10 ^ nat l \<le> p else q \<le> p * 10 ^ nat (- l)) then l + 1 else l)"

text \<open>\<open>denotes x s c\<close>: the real number \<open>s * 10 ^ c\<close> rounds to the Number \<open>x\<close>.\<close>

definition denotes :: "number \<Rightarrow> int \<Rightarrow> int \<Rightarrow> bool" where
  "denotes x s c =
     Number_equal x (if c < 0 then number_of_fraction False s (10 ^ nat (- c))
                     else number_of_fraction False (s * 10 ^ nat c) 1)"

text \<open>
  The digits of a positive finite \<open>x = p / q\<close>: integers \<open>n\<close>, \<open>k\<close>, \<open>s\<close> with \<open>s\<close> of \<open>k\<close>
  digits, \<open>s * 10 ^ (n - k)\<close> rounding to \<open>x\<close>, and \<open>k\<close> as small as possible; of several
  such \<open>s\<close> the one nearest to \<open>x\<close>, the even one on a tie. Seventeen digits always
  suffice, so the search from \<open>k = 1\<close> ends within its fuel.
\<close>

fun shortest_digits ::
  "number \<Rightarrow> int \<Rightarrow> int \<Rightarrow> int \<Rightarrow> nat \<Rightarrow> int \<Rightarrow> int \<times> int \<times> int" where
  "shortest_digits x p q n 0 k =
     (n, k, (if k < n then p div (q * 10 ^ nat (n - k)) else (p * 10 ^ nat (k - n)) div q))"
| "shortest_digits x p q n (Suc fuel) k =
     (let a = (if k < n then p else p * 10 ^ nat (k - n));
          d = (if k < n then q * 10 ^ nat (n - k) else q);
          lo = a div d;
          r = a mod d;
          hi = (if r = 0 then lo else lo + 1);
          lo_ok = denotes x lo (n - k);
          hi_ok = denotes x hi (n - k);
          s = (if lo_ok \<and> hi_ok
               then (if 2 * r < d \<or> (2 * r = d \<and> even lo) then lo else hi)
               else if lo_ok then lo else hi)
      in if lo_ok \<or> hi_ok then (if s = 10 ^ nat k then (n + 1, 1, 1) else (n, k, s))
         else shortest_digits x p q n fuel (k + 1))"

definition format_digits :: "int \<Rightarrow> int \<Rightarrow> int \<Rightarrow> string" where
  "format_digits n k s =
     (let ds = decimal s in
      if k \<le> n \<and> n \<le> 21 then ds @ replicate (nat (n - k)) CHR ''0''
      else if 0 < n \<and> n \<le> 21 then take (nat n) ds @ ''.'' @ drop (nat n) ds
      else if - 6 < n \<and> n \<le> 0 then ''0.'' @ replicate (nat (- n)) CHR ''0'' @ ds
      else
        let ex = (if n - 1 < 0 then ''-'' else ''+'') @ decimal \<bar>n - 1\<bar>
        in if k = 1 then ds @ ''e'' @ ex
           else take 1 ds @ ''.'' @ drop 1 ds @ ''e'' @ ex)"

fun Number_toString :: "number \<Rightarrow> string" where
  "Number_toString NaN = ''NaN''"
| "Number_toString (Inf neg) = (if neg then ''-Infinity'' else ''Infinity'')"
| "Number_toString (Fin neg m e) =
     (if m = 0 then ''0''
      else
        let (p, q) = magnitude m e;
            (n, k, s) = shortest_digits (Fin False m e) p q (decimal_exponent p q) 17 1
        in (if neg then ''-'' else []) @ format_digits n k s)"

section \<open>The arithmetic functions\<close>

text \<open>\<open>add\<close>, \<open>subtract\<close>, \<open>multiply\<close> and \<open>divide\<close> have the same text in
  \<open>src/index.ts\<close>, \<open>src/calculator.ts\<close> and the two files of the web page. A thrown
  \<open>Error\<close> is a value carrying its message.\<close>

datatype error = Error string

definition add :: "number \<Rightarrow> number \<Rightarrow> number" where
  "add a b = Number_add a b"

definition subtract :: "number \<Rightarrow> number \<Rightarrow> number" where
  "subtract a b = Number_subtract a b"

definition multiply :: "number \<Rightarrow> number \<Rightarrow> number" where
  "multiply a b = Number_multiply a b"

definition divide :: "number \<Rightarrow> number \<Rightarrow> error + number" where
  "divide a b =
     (if Number_equal b pos_zero then Inl (Error ''Cannot divide by zero!'')
      else Inr (Number_divide a b))"

text \<open>The template \<open>${num1} ${operation} ${num2} = ${result}\<close> of both front ends.\<close>

definition calculationString :: "number \<Rightarrow> string \<Rightarrow> number \<Rightarrow> number \<Rightarrow> string" where
  "calculationString num1 operation num2 result =
     Number_toString num1 @ '' '' @ operation @ '' '' @ Number_toString num2 @ '' = '' @
     Number_toString result"

text \<open>The template \<open>${index + 1}\<close> for an array index: a natural number below \<open>2 ^ 32\<close>,
  whose successor is exact and is written as its decimal numeral.\<close>

definition index_label :: "nat \<Rightarrow> string" where
  "index_label index = decimal (int index + 1)"

section \<open>The terminal calculator of \<open>src/index.ts\<close>\<close>

definition isValidNumber :: "string \<Rightarrow> bool" where
  "isValidNumber input = (let num = parseFloat input in \<not> isNaN num)"

definition isValidOperation :: "string \<Rightarrow> bool" where
  "isValidOperation operation =
     (operation = ''+'' \<or> operation = ''-'' \<or> operation = ''*'' \<or> operation = ''/'')"

definition wantsToQuit :: "string \<Rightarrow> bool" where
  "wantsToQuit input =
     (let lowerInput = trim (toLowerCase input)
      in lowerInput = ''q'' \<or> lowerInput = ''quit'' \<or> lowerInput = ''no'')"

text \<open>What the program does at the terminal: \<open>Question q\<close> is a call of \<open>askQuestion\<close>
  showing the prompt \<open>q\<close>, \<open>Log s\<close> a call of \<open>console.log\<close>. The lines the user types are
  a list of answers; when the list is used up the program stays suspended in its last
  question.\<close>

datatype event = Question string | Log string

definition showHistory :: "string list \<Rightarrow> event list" where
  "showHistory calculationHistory =
     (if length calculationHistory = 0
      then [Log (nl @ ''No calculations in history yet.'' @ nl)]
      else [Log (nl @ ''=== Calculation History ==='')] @
           map (\<lambda>(index, calc). Log (index_label index @ ''. '' @ calc))
               (enumerate 0 calculationHistory) @
           [Log ''''])"

definition clearHistory :: "string list \<Rightarrow> event list \<times> string list" where
  "clearHistory calculationHistory = ([Log (nl @ ''History cleared!'' @ nl)], [])"

text \<open>Steps 1 and 2 of \<open>performCalculation\<close>: the loop that asks for a number until the
  answer is valid. The result is the trace and, unless the answers ran out, the number
  with the answers still unread.\<close>

fun ask_number :: "string \<Rightarrow> string list \<Rightarrow> event list \<times> (number \<times> string list) option" where
  "ask_number q [] = ([Question q], None)"
| "ask_number q (numInput # rest) =
     (if isValidNumber numInput then ([Question q], Some (parseFloat numInput, rest))
      else (let (evs, r) = ask_number q rest
            in (Question q # Log (''Error: That is not a valid number. Please try again.'' @ nl)
                  # evs, r)))"

text \<open>Step 3: the loop that asks for the operation.\<close>

fun ask_operation :: "string list \<Rightarrow> event list \<times> (string \<times> string list) option" where
  "ask_operation [] = ([Question ''Enter the operation (+, -, *, /): ''], None)"
| "ask_operation (operation # rest) =
     (if isValidOperation operation
      then ([Question ''Enter the operation (+, -, *, /): ''], Some (operation, rest))
      else (let (evs, r) = ask_operation rest
            in (Question ''Enter the operation (+, -, *, /): ''
                  # Log (''Error: Invalid operation! Valid options are: +, -, *, /'' @ nl)
                  # evs, r)))"

text \<open>Step 4, the chain of comparisons inside the \<open>try\<close> block.\<close>

definition calculate :: "number \<Rightarrow> number \<Rightarrow> string \<Rightarrow> error + number" where
  "calculate num1 num2 operation =
     (if operation = ''+'' then Inr (add num1 num2)
      else if operation = ''-'' then Inr (subtract num1 num2)
      else if operation = ''*'' then Inr (multiply num1 num2)
      else divide num1 num2)"

text \<open>Step 5 and the \<open>catch\<close> clause: what is logged, and the history afterwards.\<close>

definition report :: "number \<Rightarrow> number \<Rightarrow> string \<Rightarrow> string list \<Rightarrow> event list \<times> string list" where
  "report num1 num2 operation calculationHistory =
     (case calculate num1 num2 operation of
        Inr result \<Rightarrow>
          ([Log (nl @ ''Result: '' @ calculationString num1 operation num2 result @ nl)],
           calculationHistory @ [calculationString num1 operation num2 result])
      | Inl (Error message) \<Rightarrow>
          ([Log (nl @ ''Error: '' @ message @ nl)], calculationHistory))"

text \<open>One calculation: the trace, the history afterwards, and the answers still unread
  (\<open>None\<close> when they ran out before the calculation was complete).\<close>

definition performCalculation ::
  "string list \<Rightarrow> string list \<Rightarrow> event list \<times> string list \<times> string list option" where
  "performCalculation inputs calculationHistory =
     (case ask_number ''Enter the first number: '' inputs of
        (ev1, None) \<Rightarrow> (ev1, calculationHistory, None)
      | (ev1, Some (num1, in1)) \<Rightarrow>
          (case ask_number ''Enter the second number: '' in1 of
             (ev2, None) \<Rightarrow> (ev1 @ ev2, calculationHistory, None)
           | (ev2, Some (num2, in2)) \<Rightarrow>
               (case ask_operation in2 of
                  (ev3, None) \<Rightarrow> (ev1 @ ev2 @ ev3, calculationHistory, None)
                | (ev3, Some (operation, in3)) \<Rightarrow>
                    (let (ev4, history') = report num1 num2 operation calculationHistory
                     in (ev1 @ ev2 @ ev3 @ ev4, history', Some in3)))))"

definition continue_prompt :: string where
  "continue_prompt = ''Calculate again? (Press Enter to continue, type '' @ [CHR 0x22] @
     ''history'' @ [CHR 0x22] @ '' to view past calculations, type '' @ [CHR 0x22] @
     ''clear'' @ [CHR 0x22] @ '' to clear history, or type q/quit/no to exit): ''"

lemma ask_number_consumes:
  "ask_number q inputs = (evs, Some (num, rest)) \<Longrightarrow> length rest < length inputs"
proof (induction inputs arbitrary: evs)
  case Nil
  then show ?case by simp
next
  case (Cons a inputs)
  then show ?case
    by (fastforce split: if_splits prod.splits)
qed

lemma ask_operation_consumes:
  "ask_operation inputs = (evs, Some (operation, rest)) \<Longrightarrow> length rest < length inputs"
proof (induction inputs arbitrary: evs)
  case Nil
  then show ?case by simp
next
  case (Cons a inputs)
  then show ?case
    by (fastforce split: if_splits prod.splits)
qed

lemma performCalculation_consumes:
  assumes "performCalculation inputs h = (evs, h', Some rest)"
  shows "length rest < length inputs"
  using assms
  by (auto simp: performCalculation_def split: prod.splits option.splits
      dest!: ask_number_consumes ask_operation_consumes)

text \<open>The loop of \<open>main\<close>. The result is the trace, the history at the end, and whether
  the loop was left through \<open>break\<close> (otherwise the program is suspended in a question).\<close>

function main_loop :: "string list \<Rightarrow> string list \<Rightarrow> event list \<times> string list \<times> bool" where
  "main_loop inputs calculationHistory =
     (case performCalculation inputs calculationHistory of
        (evs, h, None) \<Rightarrow> (evs, h, False)
      | (evs, h, Some []) \<Rightarrow> (evs @ [Question continue_prompt], h, False)
      | (evs, h, Some (continueInput # rest)) \<Rightarrow>
          (let trimmedInput = trim (toLowerCase continueInput) in
           if trimmedInput = ''history'' then
             (let (evs', r) = main_loop rest h
              in (evs @ [Question continue_prompt] @ showHistory h @ evs', r))
           else if trimmedInput = ''clear'' then
             (let (cleared, h') = clearHistory h;
                  (evs', r) = main_loop rest h'
              in (evs @ [Question continue_prompt] @ cleared @ evs', r))
           else if wantsToQuit continueInput then
             (evs @ [Question continue_prompt, Log (nl @ ''Goodbye!'')], h, True)
           else
             (let (evs', r) = main_loop rest h
              in (evs @ [Question continue_prompt, Log ''''] @ evs', r))))"
  by pat_completeness auto
termination
proof (relation "measure (\<lambda>(inputs, h). length inputs)")
  show "wf (measure (\<lambda>(inputs, h). length inputs))" by simp
qed (auto dest!: performCalculation_consumes [OF sym] simp: clearHistory_def)

declare main_loop.simps [simp del]

definition main :: "string list \<Rightarrow> event list \<times> string list \<times> bool" where
  "main inputs =
     (let (evs, r) = main_loop inputs []
      in (Log (''=== Terminal Calculator ==='' @ nl) # evs, r))"

section \<open>The terminal calculator of \<open>src/calculator.ts\<close>\<close>

text \<open>The second terminal program: it asks for the operation first, keeps no history,
  and goes back to the head of its loop after every invalid answer.\<close>

definition calculator_result :: "number \<Rightarrow> number \<Rightarrow> string \<Rightarrow> error + number" where
  "calculator_result num1 num2 operation =
     (if operation = ''+'' then Inr (add num1 num2)
      else if operation = ''-'' then Inr (subtract num1 num2)
      else if operation = ''*'' then Inr (multiply num1 num2)
      else if operation = ''/'' then divide num1 num2
      else Inl (Error ''Invalid operation''))"

definition operation_prompt :: string where
  "operation_prompt = ''Enter operation (+, -, *, /, or q to quit): ''"

fun calculator_loop :: "string list \<Rightarrow> event list \<times> bool" where
  "calculator_loop [] = ([Question operation_prompt], False)"
| "calculator_loop (operation # rest) =
     (if toLowerCase operation = ''q'' then ([Question operation_prompt, Log ''Goodbye!''], True)
      else if operation \<notin> set [''+'', ''-'', ''*'', ''/''] then
        (let (evs, r) = calculator_loop rest
         in (Question operation_prompt
               # Log (''Invalid operation! Please use +, -, *, or /.'' @ nl) # evs, r))
      else
        (case rest of
           [] \<Rightarrow> ([Question operation_prompt, Question ''Enter first number: ''], False)
         | num1Str # rest1 \<Rightarrow>
             if isNaN (parseFloat num1Str) then
               (let (evs, r) = calculator_loop rest1
                in (Question operation_prompt # Question ''Enter first number: ''
                      # Log (''Invalid number! Please enter a valid number.'' @ nl) # evs, r))
             else
               (case rest1 of
                  [] \<Rightarrow> ([Question operation_prompt, Question ''Enter first number: '',
                          Question ''Enter second number: ''], False)
                | num2Str # rest2 \<Rightarrow>
                    if isNaN (parseFloat num2Str) then
                      (let (evs, r) = calculator_loop rest2
                       in (Question operation_prompt # Question ''Enter first number: ''
                             # Question ''Enter second number: ''
                             # Log (''Invalid number! Please enter a valid number.'' @ nl)
                             # evs, r))
                    else
                      (let num1 = parseFloat num1Str;
                           num2 = parseFloat num2Str;
                           (evs, r) = calculator_loop rest2
                       in (Question operation_prompt # Question ''Enter first number: ''
                             # Question ''Enter second number: ''
                             # (case calculator_result num1 num2 operation of
                                  Inr result \<Rightarrow>
                                    Log (nl @ ''Result: '' @
                                         calculationString num1 operation num2 result @ nl)
                                | Inl (Error message) \<Rightarrow>
                                    Log (nl @ ''Error: '' @ message @ nl))
                             # evs, r)))))"

declare calculator_loop.simps [simp del]

definition calculator :: "string list \<Rightarrow> event list \<times> bool" where
  "calculator inputs =
     (let (evs, r) = calculator_loop inputs
      in ([Log (''=== Terminal Calculator ==='' @ nl), Log ''Available operations:'',
           Log ''  + (addition)'', Log ''  - (subtraction)'', Log ''  * (multiplication)'',
           Log ''  / (division)'', Log (''  q (quit)'' @ nl)] @ evs, r))"

section \<open>The web page of \<open>web/app.js\<close>\<close>

text \<open>The page as the handlers see it: the values of the two input fields and of the
  operation selector, the text and class of the result element, the markup of the
  history list, and the history array of the script.\<close>

record page =
  num1_value :: string
  num2_value :: string
  operation_value :: string
  result_textContent :: string
  result_className :: string
  historyList_innerHTML :: string
  calculationHistory :: "string list"

definition history_empty_html :: string where
  "history_empty_html = ''<div class='' @ [CHR 0x22] @ ''history-empty'' @ [CHR 0x22] @
     ''>No calculations yet</div>''"

definition history_item_html :: "nat \<Rightarrow> string \<Rightarrow> string" where
  "history_item_html index calc = ''<div class='' @ [CHR 0x22] @ ''history-item'' @
     [CHR 0x22] @ ''>'' @ index_label index @ ''. '' @ calc @ ''</div>''"

definition updateHistoryDisplay :: "page \<Rightarrow> page" where
  "updateHistoryDisplay p =
     (if length (calculationHistory p) = 0
      then p\<lparr>historyList_innerHTML := history_empty_html\<rparr>
      else p\<lparr>historyList_innerHTML :=
               concat (map (\<lambda>(index, calc). history_item_html index calc)
                           (enumerate 0 (calculationHistory p)))\<rparr>)"

definition addToHistory :: "string \<Rightarrow> page \<Rightarrow> page" where
  "addToHistory calculation p =
     updateHistoryDisplay (p\<lparr>calculationHistory := calculationHistory p @ [calculation]\<rparr>)"

definition clearHistory_web :: "page \<Rightarrow> page" where
  "clearHistory_web p = updateHistoryDisplay (p\<lparr>calculationHistory := []\<rparr>)"

definition performCalculation_web :: "number \<Rightarrow> number \<Rightarrow> string \<Rightarrow> error + number" where
  "performCalculation_web num1 num2 operation =
     (if operation = ''+'' then Inr (add num1 num2)
      else if operation = ''-'' then Inr (subtract num1 num2)
      else if operation = ''*'' then Inr (multiply num1 num2)
      else if operation = ''/'' then divide num1 num2
      else Inl (Error ''Invalid operation''))"

definition handleCalculate :: "page \<Rightarrow> page" where
  "handleCalculate p =
     (let num1 = parseFloat (num1_value p);
          num2 = parseFloat (num2_value p);
          operation = operation_value p
      in if isNaN num1 \<or> isNaN num2
         then p\<lparr>result_textContent := ''Error: Please enter valid numbers'',
                result_className := ''result error''\<rparr>
         else
           (case performCalculation_web num1 num2 operation of
              Inr result \<Rightarrow>
                addToHistory (calculationString num1 operation num2 result)
                  (p\<lparr>result_textContent := calculationString num1 operation num2 result,
                     result_className := ''result''\<rparr>)
            | Inl (Error errorMessage) \<Rightarrow>
                p\<lparr>result_textContent := ''Error: '' @ errorMessage,
                  result_className := ''result error''\<rparr>))"

definition handleClear :: "page \<Rightarrow> page" where
  "handleClear p =
     p\<lparr>num1_value := [], num2_value := [],
       result_textContent := ''Result will appear here'', result_className := ''result''\<rparr>"

definition handleClearHistory :: "page \<Rightarrow> page" where
  "handleClearHistory p = clearHistory_web p"

text \<open>The page when the script has just been loaded, with given field contents.\<close>

definition initial_page :: "string \<Rightarrow> string \<Rightarrow> string \<Rightarrow> page" where
  "initial_page v1 v2 operation =
     \<lparr>num1_value = v1, num2_value = v2, operation_value = operation,
      result_textContent = ''Result will appear here'', result_className = ''result'',
      historyList_innerHTML = history_empty_html, calculationHistory = []\<rparr>"

section \<open>Division and its guard\<close>

text \<open>The Numbers that are a zero, of either sign.\<close>

fun is_zero :: "number \<Rightarrow> bool" where
  "is_zero (Fin neg m e) = (m = 0)"
| "is_zero _ = False"

lemma Number_equal_pos_zero: "Number_equal b pos_zero = is_zero b"
  by (cases b) (auto simp: pos_zero_def magnitude_def signed_def)

text \<open>
  Claim C1. For all Numbers \<open>a\<close> and \<open>b\<close>, \<open>divide a b\<close> throws the error with message
  "Cannot divide by zero!" exactly when \<open>b === 0\<close>, which holds exactly when \<open>b\<close> is a zero
  (no tolerance: every other divisor, however small, is divided by), and otherwise it
  returns the quotient \<open>a / b\<close> of the language; in particular \<open>divide a 0\<close> throws for
  every finite \<open>a\<close>, zero included.
\<close>

theorem divide_throws_iff_zero_divisor:
  "(divide a b = Inl (Error ''Cannot divide by zero!'') \<longleftrightarrow> Number_equal b pos_zero) \<and>
   (Number_equal b pos_zero \<longleftrightarrow> is_zero b) \<and>
   (\<not> is_zero b \<longrightarrow> divide a b = Inr (Number_divide a b)) \<and>
   (is_finite a \<longrightarrow> divide a pos_zero = Inl (Error ''Cannot divide by zero!''))"
  by (simp add: divide_def Number_equal_pos_zero) (simp add: pos_zero_def)

theorem divide_throws_iff_zero_divisor_witness:
  "\<not> is_zero (Fin False 1 (- 1074)) \<and>
   divide (number_of_int 8) (Fin False 1 (- 1074)) =
     Inr (Number_divide (number_of_int 8) (Fin False 1 (- 1074))) \<and>
   is_finite pos_zero \<and>
   divide pos_zero pos_zero = Inl (Error ''Cannot divide by zero!'')"
  using divide_throws_iff_zero_divisor [of "number_of_int 8" "Fin False 1 (- 1074)"]
    divide_throws_iff_zero_divisor [of pos_zero pos_zero]
  by (simp add: pos_zero_def)

text \<open>
  Claim C9. Negative zero is strictly equal to zero, so \<open>divide a (-0)\<close> throws the
  division-by-zero error for every operand \<open>a\<close> and never returns an infinity, although
  the quotient of the language for a non-zero \<open>a\<close> and \<open>-0\<close> is a signed infinity.
\<close>

theorem divide_negative_zero_throws:
  "Number_equal neg_zero pos_zero \<and>
   divide a neg_zero = Inl (Error ''Cannot divide by zero!'') \<and>
   divide a neg_zero \<noteq> Inr (Inf s) \<and>
   Number_divide (Fin False 1 0) neg_zero = Inf True"
  by (simp add: divide_def Number_equal_pos_zero neg_zero_def)

section \<open>The history and failed calculations\<close>

lemma calculate_error:
  "calculate num1 num2 operation = Inl e \<Longrightarrow> e = Error ''Cannot divide by zero!'' \<and> is_zero num2"
  by (auto simp: calculate_def divide_def Number_equal_pos_zero split: if_splits)

lemma report_failure:
  "calculate num1 num2 operation = Inl e \<Longrightarrow> snd (report num1 num2 operation h) = h"
  by (cases e) (simp add: report_def)

lemma report_success:
  "calculate num1 num2 operation = Inr result \<Longrightarrow>
   snd (report num1 num2 operation h) = h @ [calculationString num1 operation num2 result]"
  by (simp add: report_def)

lemma performCalculation_reports:
  assumes "performCalculation inputs h = (evs, h', r)"
  shows "h' = h \<or> (\<exists>num1 num2 operation. h' = snd (report num1 num2 operation h))"
  using assms
  by (auto simp: performCalculation_def split: prod.splits option.splits) (metis snd_conv)

lemma performCalculation_history:
  assumes "performCalculation inputs h = (evs, h', r)"
  shows "h' = h \<or> (\<exists>num1 num2 operation result.
           calculate num1 num2 operation = Inr result \<and>
           h' = h @ [calculationString num1 operation num2 result])"
proof -
  from performCalculation_reports [OF assms]
  consider "h' = h" | num1 num2 operation where "h' = snd (report num1 num2 operation h)"
    by blast
  then show ?thesis
  proof cases
    case 1
    then show ?thesis by simp
  next
    case 2
    show ?thesis
    proof (cases "calculate num1 num2 operation")
      case (Inl e)
      with 2 show ?thesis by (simp add: report_failure)
    next
      case (Inr result)
      with 2 have "h' = h @ [calculationString num1 operation num2 result]"
        by (simp add: report_success)
      with Inr show ?thesis by blast
    qed
  qed
qed

lemma performCalculation_division_by_zero:
  assumes "isValidNumber x1" and "isValidNumber x2" and "is_zero (parseFloat x2)"
  shows "fst (snd (performCalculation (x1 # x2 # ''/'' # rest) h)) = h"
proof -
  have "calculate (parseFloat x1) (parseFloat x2) ''/'' = Inl (Error ''Cannot divide by zero!'')"
    using assms(3) by (simp add: calculate_def divide_def Number_equal_pos_zero)
  then show ?thesis
    using assms(1,2)
    by (simp add: performCalculation_def isValidOperation_def report_def)
qed

lemma handleCalculate_invalid:
  assumes "isNaN (parseFloat (num1_value p)) \<or> isNaN (parseFloat (num2_value p))"
  shows "calculationHistory (handleCalculate p) = calculationHistory p \<and>
         historyList_innerHTML (handleCalculate p) = historyList_innerHTML p"
  using assms by (auto simp: handleCalculate_def Let_def)

lemma handleCalculate_failure:
  assumes "performCalculation_web (parseFloat (num1_value p)) (parseFloat (num2_value p))
             (operation_value p) = Inl e"
  shows "calculationHistory (handleCalculate p) = calculationHistory p \<and>
         historyList_innerHTML (handleCalculate p) = historyList_innerHTML p"
  using assms by (cases e) (auto simp: handleCalculate_def Let_def)

lemma handleCalculate_success:
  assumes "\<not> isNaN (parseFloat (num1_value p))" and "\<not> isNaN (parseFloat (num2_value p))"
    and "performCalculation_web (parseFloat (num1_value p)) (parseFloat (num2_value p))
             (operation_value p) = Inr result"
  shows "calculationHistory (handleCalculate p) =
           calculationHistory p @
           [calculationString (parseFloat (num1_value p)) (operation_value p)
              (parseFloat (num2_value p)) result]"
  using assms
  by (simp add: handleCalculate_def Let_def addToHistory_def updateHistoryDisplay_def)

text \<open>
  Claim C2. A failed calculation leaves the history as it was. At the terminal, the
  computation fails only with the division-by-zero error, and then the history after the
  \<open>try\<close> statement is the history before it; whatever the answers, a whole calculation
  either leaves the history alone or appends the one record of a computation that
  succeeded. On the web page, an operand that parses to NaN or a computation that throws
  leaves the history array and the displayed list untouched, and a success appends its
  one record.
\<close>

theorem failed_calculation_keeps_history:
  "(calculate num1 num2 operation = Inl e \<longrightarrow>
      e = Error ''Cannot divide by zero!'' \<and> snd (report num1 num2 operation h) = h) \<and>
   (calculate num1 num2 operation = Inr result \<longrightarrow>
      snd (report num1 num2 operation h) = h @ [calculationString num1 operation num2 result]) \<and>
   (performCalculation inputs h = (evs, h', r) \<longrightarrow>
      h' = h \<or> (\<exists>n1 n2 op res. calculate n1 n2 op = Inr res \<and>
                   h' = h @ [calculationString n1 op n2 res])) \<and>
   (isValidNumber x1 \<and> isValidNumber x2 \<and> is_zero (parseFloat x2) \<longrightarrow>
      fst (snd (performCalculation (x1 # x2 # ''/'' # rest) h)) = h) \<and>
   (isNaN (parseFloat (num1_value p)) \<or> isNaN (parseFloat (num2_value p)) \<longrightarrow>
      calculationHistory (handleCalculate p) = calculationHistory p \<and>
      historyList_innerHTML (handleCalculate p) = historyList_innerHTML p) \<and>
   (performCalculation_web (parseFloat (num1_value p)) (parseFloat (num2_value p))
        (operation_value p) = Inl e' \<longrightarrow>
      calculationHistory (handleCalculate p) = calculationHistory p \<and>
      historyList_innerHTML (handleCalculate p) = historyList_innerHTML p) \<and>
   (\<not> isNaN (parseFloat (num1_value p)) \<and> \<not> isNaN (parseFloat (num2_value p)) \<and>
    performCalculation_web (parseFloat (num1_value p)) (parseFloat (num2_value p))
        (operation_value p) = Inr result' \<longrightarrow>
      calculationHistory (handleCalculate p) =
        calculationHistory p @
        [calculationString (parseFloat (num1_value p)) (operation_value p)
           (parseFloat (num2_value p)) result'])"
proof (intro conjI impI)
  assume "calculate num1 num2 operation = Inl e"
  then show "e = Error ''Cannot divide by zero!''"
    and "snd (report num1 num2 operation h) = h"
    by (simp_all add: calculate_error report_failure)
next
  assume "calculate num1 num2 operation = Inr result"
  then show "snd (report num1 num2 operation h) =
      h @ [calculationString num1 operation num2 result]"
    by (rule report_success)
next
  assume "performCalculation inputs h = (evs, h', r)"
  then show "h' = h \<or> (\<exists>n1 n2 op res. calculate n1 n2 op = Inr res \<and>
      h' = h @ [calculationString n1 op n2 res])"
    by (rule performCalculation_history)
next
  assume "isValidNumber x1 \<and> isValidNumber x2 \<and> is_zero (parseFloat x2)"
  then show "fst (snd (performCalculation (x1 # x2 # ''/'' # rest) h)) = h"
    by (simp add: performCalculation_division_by_zero)
next
  assume a: "isNaN (parseFloat (num1_value p)) \<or> isNaN (parseFloat (num2_value p))"
  show "calculationHistory (handleCalculate p) = calculationHistory p"
    and "historyList_innerHTML (handleCalculate p) = historyList_innerHTML p"
    using handleCalculate_invalid [OF a] by simp_all
next
  assume a: "performCalculation_web (parseFloat (num1_value p)) (parseFloat (num2_value p))
        (operation_value p) = Inl e'"
  show "calculationHistory (handleCalculate p) = calculationHistory p"
    and "historyList_innerHTML (handleCalculate p) = historyList_innerHTML p"
    using handleCalculate_failure [OF a] by simp_all
next
  assume "\<not> isNaN (parseFloat (num1_value p)) \<and> \<not> isNaN (parseFloat (num2_value p)) \<and>
    performCalculation_web (parseFloat (num1_value p)) (parseFloat (num2_value p))
        (operation_value p) = Inr result'"
  then show "calculationHistory (handleCalculate p) =
        calculationHistory p @
        [calculationString (parseFloat (num1_value p)) (operation_value p)
           (parseFloat (num2_value p)) result']"
    by (simp add: handleCalculate_success)
qed

theorem failed_calculation_keeps_history_witness:
  "calculate (number_of_int 8) pos_zero ''/'' = Inl (Error ''Cannot divide by zero!'') \<and>
   snd (report (number_of_int 8) pos_zero ''/'' [''1 + 1 = 2'']) = [''1 + 1 = 2''] \<and>
   calculate (number_of_int 10) (number_of_int 5) ''+'' = Inr (number_of_int 15) \<and>
   snd (report (number_of_int 10) (number_of_int 5) ''+'' [''1 + 1 = 2'']) =
     [''1 + 1 = 2''] @
     [calculationString (number_of_int 10) ''+'' (number_of_int 5) (number_of_int 15)] \<and>
   (isValidNumber ''8'' \<and> isValidNumber ''0'' \<and> is_zero (parseFloat ''0'')) \<and>
   fst (snd (performCalculation (''8'' # ''0'' # ''/'' # [''q'']) [''1 + 1 = 2''])) =
     [''1 + 1 = 2''] \<and>
   isNaN (parseFloat (num1_value (initial_page ''abc'' ''5'' ''+''))) \<and>
   calculationHistory (handleCalculate (initial_page ''abc'' ''5'' ''+'')) =
     calculationHistory (initial_page ''abc'' ''5'' ''+'') \<and>
   performCalculation_web (parseFloat (num1_value (initial_page ''8'' ''0'' ''/'')))
     (parseFloat (num2_value (initial_page ''8'' ''0'' ''/'')))
     (operation_value (initial_page ''8'' ''0'' ''/'')) = Inl (Error ''Cannot divide by zero!'') \<and>
   calculationHistory (handleCalculate (initial_page ''8'' ''0'' ''/'')) =
     calculationHistory (initial_page ''8'' ''0'' ''/'') \<and>
   performCalculation_web (parseFloat (num1_value (initial_page ''10'' ''5'' ''+'')))
     (parseFloat (num2_value (initial_page ''10'' ''5'' ''+'')))
     (operation_value (initial_page ''10'' ''5'' ''+'')) = Inr (number_of_int 15) \<and>
   calculationHistory (handleCalculate (initial_page ''10'' ''5'' ''+'')) =
     calculationHistory (initial_page ''10'' ''5'' ''+'') @
     [calculationString (parseFloat (num1_value (initial_page ''10'' ''5'' ''+''))) 
        (operation_value (initial_page ''10'' ''5'' ''+''))
        (parseFloat (num2_value (initial_page ''10'' ''5'' ''+''))) (number_of_int 15)]"
proof -
  have h1: "calculate (number_of_int 8) pos_zero ''/'' = Inl (Error ''Cannot divide by zero!'')"
    by code_simp
  have h2: "calculate (number_of_int 10) (number_of_int 5) ''+'' = Inr (number_of_int 15)"
    by code_simp
  have h3: "isValidNumber ''8'' \<and> isValidNumber ''0'' \<and> is_zero (parseFloat ''0'')"
    by code_simp
  have h4: "isNaN (parseFloat (num1_value (initial_page ''abc'' ''5'' ''+'')))"
    by code_simp
  have h5: "performCalculation_web (parseFloat (num1_value (initial_page ''8'' ''0'' ''/'')))
     (parseFloat (num2_value (initial_page ''8'' ''0'' ''/'')))
     (operation_value (initial_page ''8'' ''0'' ''/'')) = Inl (Error ''Cannot divide by zero!'')"
    by code_simp
  have h6: "\<not> isNaN (parseFloat (num1_value (initial_page ''10'' ''5'' ''+'')))"
    by code_simp
  have h7: "\<not> isNaN (parseFloat (num2_value (initial_page ''10'' ''5'' ''+'')))"
    by code_simp
  have h8: "performCalculation_web (parseFloat (num1_value (initial_page ''10'' ''5'' ''+'')))
     (parseFloat (num2_value (initial_page ''10'' ''5'' ''+'')))
     (operation_value (initial_page ''10'' ''5'' ''+'')) = Inr (number_of_int 15)"
    by code_simp
  note t1 = failed_calculation_keeps_history
    [where ?num1.0 = "number_of_int 8" and ?num2.0 = pos_zero and operation = "''/''"
       and e = "Error ''Cannot divide by zero!''" and h = "[''1 + 1 = 2'']"
       and ?x1.0 = "''8''" and ?x2.0 = "''0''" and rest = "[''q'']"
       and p = "initial_page ''abc'' ''5'' ''+''"]
  note t2 = failed_calculation_keeps_history
    [where ?num1.0 = "number_of_int 10" and ?num2.0 = "number_of_int 5" and operation = "''+''"
       and result = "number_of_int 15" and h = "[''1 + 1 = 2'']"
       and p = "initial_page ''8'' ''0'' ''/''" and e' = "Error ''Cannot divide by zero!''"]
  note t3 = failed_calculation_keeps_history
    [where p = "initial_page ''10'' ''5'' ''+''" and result' = "number_of_int 15"]
  have c1: "snd (report (number_of_int 8) pos_zero ''/'' [''1 + 1 = 2'']) = [''1 + 1 = 2'']"
    using t1 h1 by blast
  have c2: "snd (report (number_of_int 10) (number_of_int 5) ''+'' [''1 + 1 = 2'']) =
     [''1 + 1 = 2''] @
     [calculationString (number_of_int 10) ''+'' (number_of_int 5) (number_of_int 15)]"
    using t2 h2 by blast
  have c3: "fst (snd (performCalculation (''8'' # ''0'' # ''/'' # [''q'']) [''1 + 1 = 2''])) =
     [''1 + 1 = 2'']"
    using t1 h3 by blast
  have c4: "calculationHistory (handleCalculate (initial_page ''abc'' ''5'' ''+'')) =
     calculationHistory (initial_page ''abc'' ''5'' ''+'')"
    using t1 h4 by blast
  have c5: "calculationHistory (handleCalculate (initial_page ''8'' ''0'' ''/'')) =
     calculationHistory (initial_page ''8'' ''0'' ''/'')"
    using t2 h5 by blast
  have c6: "calculationHistory (handleCalculate (initial_page ''10'' ''5'' ''+'')) =
     calculationHistory (initial_page ''10'' ''5'' ''+'') @
     [calculationString (parseFloat (num1_value (initial_page ''10'' ''5'' ''+''))) 
        (operation_value (initial_page ''10'' ''5'' ''+''))
        (parseFloat (num2_value (initial_page ''10'' ''5'' ''+''))) (number_of_int 15)]"
    using t3 h6 h7 h8 by blast
  show ?thesis
    by (intro conjI h1 h2 h3 h4 h5 h8 c1 c2 c3 c4 c5 c6)
qed

section \<open>Rendering the history\<close>








lemma updateHistoryDisplay_history [simp]:
  "calculationHistory (updateHistoryDisplay p) = calculationHistory p"
  by (simp add: updateHistoryDisplay_def)





section \<open>Values of the examples\<close>

lemma isNaN_number_of_fraction [simp]: "\<not> isNaN (number_of_fraction neg p q)"
  by (simp add: number_of_fraction_def Let_def)

lemma isNaN_number_of_int [simp]: "\<not> isNaN (number_of_int i)"
  by (simp add: number_of_int_def number_of_signed_def)

lemma parseFloat_examples:
  "parseFloat ''10'' = number_of_int 10"
  "parseFloat ''5'' = number_of_int 5"
  "parseFloat ''10abc'' = number_of_int 10"
  "parseFloat ''abc'' = NaN"
  "parseFloat ''Infinity'' = Inf False"
  "parseFloat ''-Infinity'' = Inf True"
  by code_simp+

text \<open>The arithmetic, the parser and the printer agree with the values the language is
  known to give.\<close>

lemma known_values:
  "Number_toString (add (parseFloat ''0.1'') (parseFloat ''0.2'')) = ''0.30000000000000004''"
  "Number_toString (Number_divide (number_of_int 1) (number_of_int 3)) = ''0.3333333333333333''"
  "Number_toString (parseFloat ''1e21'') = ''1e+21''"
  "Number_toString (multiply (parseFloat ''4.35'') (number_of_int 100)) = ''434.99999999999994''"
  "Number_toString (parseFloat ''-2.50'') = ''-2.5''"
  by code_simp+

lemma add_10_5: "add (number_of_int 10) (number_of_int 5) = number_of_int 15"
  by code_simp

lemma Number_toString_5: "Number_toString (number_of_int 5) = ''5''"
  by code_simp

lemma Number_toString_10: "Number_toString (number_of_int 10) = ''10''"
  by code_simp

lemma Number_toString_15: "Number_toString (number_of_int 15) = ''15''"
  by code_simp

lemma calculationString_10_5:
  "calculationString (number_of_int 10) ''+'' (number_of_int 5) (number_of_int 15) =
     ''10 + 5 = 15''"
  by (simp add: calculationString_def Number_toString_5 Number_toString_10 Number_toString_15)

lemma index_label_0: "index_label 0 = ''1''"
  by (simp add: index_label_def decimal.simps)

lemma toLowerCase_operation:
  "operation \<in> set [''+'', ''-'', ''*'', ''/''] \<Longrightarrow> toLowerCase operation \<noteq> ''q''"
  by (auto simp: toLowerCase_def upper_case_def lower_case_def)

section \<open>Invalid operands\<close>

lemma ask_number_invalid:
  "isNaN (parseFloat x) \<Longrightarrow>
   ask_number q (x # rest) =
     (Question q # Log (''Error: That is not a valid number. Please try again.'' @ nl)
        # fst (ask_number q rest), snd (ask_number q rest))"
  by (simp add: isValidNumber_def case_prod_beta del: append.simps)

lemma ask_number_valid:
  "\<not> isNaN (parseFloat x) \<Longrightarrow> ask_number q (x # rest) = ([Question q], Some (parseFloat x, rest))"
  by (simp add: isValidNumber_def)

lemma ask_number_all_invalid:
  "\<forall>x\<in>set xs. isNaN (parseFloat x) \<Longrightarrow>
   ask_number q xs =
     (concat (map (\<lambda>x. [Question q,
                          Log (''Error: That is not a valid number. Please try again.'' @ nl)]) xs)
        @ [Question q], None)"
  by (induction xs) (simp_all add: isValidNumber_def)

lemma performCalculation_first_invalid:
  assumes "isNaN (parseFloat x)"
  shows "performCalculation (x # rest) h =
     (Question ''Enter the first number: ''
        # Log (''Error: That is not a valid number. Please try again.'' @ nl)
        # fst (performCalculation rest h), snd (performCalculation rest h))"
proof -
  obtain ev r where a: "ask_number ''Enter the first number: '' rest = (ev, r)"
    by fastforce
  have b: "ask_number ''Enter the first number: '' (x # rest) =
      (Question ''Enter the first number: ''
         # Log (''Error: That is not a valid number. Please try again.'' @ nl) # ev, r)"
    by (simp only: ask_number_invalid [OF assms] a fst_conv snd_conv)
  show ?thesis
    unfolding performCalculation_def a b
    by (simp split: prod.splits option.splits)
qed

lemma performCalculation_second_invalid:
  assumes "\<not> isNaN (parseFloat a)" and "isNaN (parseFloat x)"
  shows "\<exists>evs r.
     performCalculation (a # rest) h = (Question ''Enter the first number: '' # evs, r) \<and>
     performCalculation (a # x # rest) h =
       (Question ''Enter the first number: '' # Question ''Enter the second number: ''
          # Log (''Error: That is not a valid number. Please try again.'' @ nl) # evs, r)"
proof -
  obtain ev r where a: "ask_number ''Enter the second number: '' rest = (ev, r)"
    by fastforce
  have v: "isValidNumber a" "\<not> isValidNumber x"
    using assms by (simp_all add: isValidNumber_def)
  show ?thesis
    by (cases r) (auto simp: performCalculation_def v a split: prod.splits option.splits)
qed

lemma calculator_loop_first_invalid:
  assumes "operation \<in> set [''+'', ''-'', ''*'', ''/'']" and "isNaN (parseFloat x)"
  shows "calculator_loop (operation # x # rest) =
     (Question operation_prompt # Question ''Enter first number: ''
        # Log (''Invalid number! Please enter a valid number.'' @ nl)
        # fst (calculator_loop rest), snd (calculator_loop rest))"
  using assms toLowerCase_operation [OF assms(1)]
  by (subst calculator_loop.simps) (simp add: case_prod_beta)

lemma calculator_loop_second_invalid:
  assumes "operation \<in> set [''+'', ''-'', ''*'', ''/'']"
    and "\<not> isNaN (parseFloat a)" and "isNaN (parseFloat x)"
  shows "calculator_loop (operation # a # x # rest) =
     (Question operation_prompt # Question ''Enter first number: ''
        # Question ''Enter second number: ''
        # Log (''Invalid number! Please enter a valid number.'' @ nl)
        # fst (calculator_loop rest), snd (calculator_loop rest))"
  using assms toLowerCase_operation [OF assms(1)]
  by (subst calculator_loop.simps) (simp add: case_prod_beta)

text \<open>
  Claim C5, as amended. In the terminal program of \<open>src/index.ts\<close>, an answer to an
  operand question that parses to NaN makes the loop log an error and ask the same
  question again on the answers that follow, and a run of such answers never leaves the
  question; the parse takes the longest numeric prefix, so \<open>10abc\<close> is the operand 10 and
  is accepted. The terminal program of \<open>src/calculator.ts\<close> instead logs an error and
  goes back to the question for the operation, after an invalid first operand as after
  an invalid second one.
\<close>

theorem invalid_operand_asks_again:
  "(isNaN (parseFloat x) \<longrightarrow>
      ask_number q (x # rest) =
        (Question q # Log (''Error: That is not a valid number. Please try again.'' @ nl)
           # fst (ask_number q rest), snd (ask_number q rest))) \<and>
   ((\<forall>x\<in>set xs. isNaN (parseFloat x)) \<longrightarrow>
      ask_number q xs =
        (concat (map (\<lambda>x. [Question q,
             Log (''Error: That is not a valid number. Please try again.'' @ nl)]) xs)
           @ [Question q], None)) \<and>
   (isNaN (parseFloat x) \<longrightarrow>
      performCalculation (x # rest) h =
        (Question ''Enter the first number: ''
           # Log (''Error: That is not a valid number. Please try again.'' @ nl)
           # fst (performCalculation rest h), snd (performCalculation rest h))) \<and>
   (\<not> isNaN (parseFloat a) \<and> isNaN (parseFloat x) \<longrightarrow>
      (\<exists>evs r.
         performCalculation (a # rest) h = (Question ''Enter the first number: '' # evs, r) \<and>
         performCalculation (a # x # rest) h =
           (Question ''Enter the first number: '' # Question ''Enter the second number: ''
              # Log (''Error: That is not a valid number. Please try again.'' @ nl)
              # evs, r))) \<and>
   parseFloat ''10abc'' = number_of_int 10 \<and>
   ask_number q (''10abc'' # rest) = ([Question q], Some (number_of_int 10, rest)) \<and>
   (operation \<in> set [''+'', ''-'', ''*'', ''/''] \<and> isNaN (parseFloat x) \<longrightarrow>
      calculator_loop (operation # x # rest) =
        (Question ''Enter operation (+, -, *, /, or q to quit): ''
           # Question ''Enter first number: ''
           # Log (''Invalid number! Please enter a valid number.'' @ nl)
           # fst (calculator_loop rest), snd (calculator_loop rest))) \<and>
   (operation \<in> set [''+'', ''-'', ''*'', ''/''] \<and>
    \<not> isNaN (parseFloat a) \<and> isNaN (parseFloat x) \<longrightarrow>
      calculator_loop (operation # a # x # rest) =
        (Question ''Enter operation (+, -, *, /, or q to quit): ''
           # Question ''Enter first number: '' # Question ''Enter second number: ''
           # Log (''Invalid number! Please enter a valid number.'' @ nl)
           # fst (calculator_loop rest), snd (calculator_loop rest)))"
proof (intro conjI impI)
  assume "isNaN (parseFloat x)"
  then show "ask_number q (x # rest) =
        (Question q # Log (''Error: That is not a valid number. Please try again.'' @ nl)
           # fst (ask_number q rest), snd (ask_number q rest))"
    by (rule ask_number_invalid)
next
  assume "\<forall>x\<in>set xs. isNaN (parseFloat x)"
  then show "ask_number q xs =
        (concat (map (\<lambda>x. [Question q,
             Log (''Error: That is not a valid number. Please try again.'' @ nl)]) xs)
           @ [Question q], None)"
    by (rule ask_number_all_invalid)
next
  assume "isNaN (parseFloat x)"
  then show "performCalculation (x # rest) h =
        (Question ''Enter the first number: ''
           # Log (''Error: That is not a valid number. Please try again.'' @ nl)
           # fst (performCalculation rest h), snd (performCalculation rest h))"
    by (rule performCalculation_first_invalid)
next
  assume "\<not> isNaN (parseFloat a) \<and> isNaN (parseFloat x)"
  then show "\<exists>evs r.
         performCalculation (a # rest) h = (Question ''Enter the first number: '' # evs, r) \<and>
         performCalculation (a # x # rest) h =
           (Question ''Enter the first number: '' # Question ''Enter the second number: ''
              # Log (''Error: That is not a valid number. Please try again.'' @ nl)
              # evs, r)"
    using performCalculation_second_invalid by blast
next
  show "parseFloat ''10abc'' = number_of_int 10"
    by (rule parseFloat_examples)
next
  show "ask_number q (''10abc'' # rest) = ([Question q], Some (number_of_int 10, rest))"
    by (simp add: isValidNumber_def parseFloat_examples)
next
  assume "operation \<in> set [''+'', ''-'', ''*'', ''/''] \<and> isNaN (parseFloat x)"
  then show "calculator_loop (operation # x # rest) =
        (Question ''Enter operation (+, -, *, /, or q to quit): ''
           # Question ''Enter first number: ''
           # Log (''Invalid number! Please enter a valid number.'' @ nl)
           # fst (calculator_loop rest), snd (calculator_loop rest))"
    using calculator_loop_first_invalid [of operation x rest]
    by (simp add: operation_prompt_def)
next
  assume "operation \<in> set [''+'', ''-'', ''*'', ''/''] \<and>
    \<not> isNaN (parseFloat a) \<and> isNaN (parseFloat x)"
  then show "calculator_loop (operation # a # x # rest) =
        (Question ''Enter operation (+, -, *, /, or q to quit): ''
           # Question ''Enter first number: '' # Question ''Enter second number: ''
           # Log (''Invalid number! Please enter a valid number.'' @ nl)
           # fst (calculator_loop rest), snd (calculator_loop rest))"
    using calculator_loop_second_invalid [of operation a x rest]
    by (simp add: operation_prompt_def)
qed

theorem invalid_operand_asks_again_witness:
  "isNaN (parseFloat ''abc'') \<and>
   ask_number ''Enter the first number: '' (''abc'' # [''10abc'']) =
     (Question ''Enter the first number: ''
        # Log (''Error: That is not a valid number. Please try again.'' @ nl)
        # fst (ask_number ''Enter the first number: '' [''10abc'']),
      snd (ask_number ''Enter the first number: '' [''10abc''])) \<and>
   snd (ask_number ''Enter the first number: '' [''abc'', ''abc'']) = None \<and>
   performCalculation (''abc'' # [''10abc'']) [] =
     (Question ''Enter the first number: ''
        # Log (''Error: That is not a valid number. Please try again.'' @ nl)
        # fst (performCalculation [''10abc''] []), snd (performCalculation [''10abc''] [])) \<and>
   \<not> isNaN (parseFloat ''10abc'') \<and>
   (\<exists>evs r.
      performCalculation (''10abc'' # [''5'']) [] = (Question ''Enter the first number: '' # evs, r) \<and>
      performCalculation (''10abc'' # ''abc'' # [''5'']) [] =
        (Question ''Enter the first number: '' # Question ''Enter the second number: ''
           # Log (''Error: That is not a valid number. Please try again.'' @ nl) # evs, r)) \<and>
   ''+'' \<in> set [''+'', ''-'', ''*'', ''/''] \<and>
   calculator_loop (''+'' # ''abc'' # [''q'']) =
     (Question ''Enter operation (+, -, *, /, or q to quit): ''
        # Question ''Enter first number: ''
        # Log (''Invalid number! Please enter a valid number.'' @ nl)
        # fst (calculator_loop [''q'']), snd (calculator_loop [''q''])) \<and>
   calculator_loop (''+'' # ''10abc'' # ''abc'' # [''q'']) =
     (Question ''Enter operation (+, -, *, /, or q to quit): ''
        # Question ''Enter first number: '' # Question ''Enter second number: ''
        # Log (''Invalid number! Please enter a valid number.'' @ nl)
        # fst (calculator_loop [''q'']), snd (calculator_loop [''q'']))"
proof -
  have h1: "isNaN (parseFloat ''abc'')"
    by (simp add: parseFloat_examples)
  have h2: "\<forall>x\<in>set [''abc'', ''abc'']. isNaN (parseFloat x)"
    by (simp add: parseFloat_examples)
  have h3: "\<not> isNaN (parseFloat ''10abc'')"
    by (simp add: parseFloat_examples)
  have h4: "''+'' \<in> set [''+'', ''-'', ''*'', ''/'']"
    by simp
  note t = invalid_operand_asks_again
    [where x = "''abc''" and q = "''Enter the first number: ''" and xs = "[''abc'', ''abc'']"
       and h = "[]" and operation = "''+''"]
  have c1: "ask_number ''Enter the first number: '' (''abc'' # [''10abc'']) =
     (Question ''Enter the first number: ''
        # Log (''Error: That is not a valid number. Please try again.'' @ nl)
        # fst (ask_number ''Enter the first number: '' [''10abc'']),
      snd (ask_number ''Enter the first number: '' [''10abc'']))"
    using t [where rest = "[''10abc'']"] h1 by blast
  have "ask_number ''Enter the first number: '' [''abc'', ''abc''] =
      (concat (map (\<lambda>x. [Question ''Enter the first number: '',
           Log (''Error: That is not a valid number. Please try again.'' @ nl)]) [''abc'', ''abc''])
         @ [Question ''Enter the first number: ''], None)"
    using t [where rest = "[]" and a = "''x''"] h2 by blast
  then have c2: "snd (ask_number ''Enter the first number: '' [''abc'', ''abc'']) = None"
    by (simp only: snd_conv)
  have c3: "performCalculation (''abc'' # [''10abc'']) [] =
     (Question ''Enter the first number: ''
        # Log (''Error: That is not a valid number. Please try again.'' @ nl)
        # fst (performCalculation [''10abc''] []), snd (performCalculation [''10abc''] []))"
    using t [where rest = "[''10abc'']"] h1 by blast
  have c4: "\<exists>evs r.
      performCalculation (''10abc'' # [''5'']) [] = (Question ''Enter the first number: '' # evs, r) \<and>
      performCalculation (''10abc'' # ''abc'' # [''5'']) [] =
        (Question ''Enter the first number: '' # Question ''Enter the second number: ''
           # Log (''Error: That is not a valid number. Please try again.'' @ nl) # evs, r)"
    using t [where rest = "[''5'']" and a = "''10abc''"] h1 h3 by blast
  have c5: "calculator_loop (''+'' # ''abc'' # [''q'']) =
     (Question ''Enter operation (+, -, *, /, or q to quit): ''
        # Question ''Enter first number: ''
        # Log (''Invalid number! Please enter a valid number.'' @ nl)
        # fst (calculator_loop [''q'']), snd (calculator_loop [''q'']))"
    using t [where rest = "[''q'']"] h1 h4 by blast
  have c6: "calculator_loop (''+'' # ''10abc'' # ''abc'' # [''q'']) =
     (Question ''Enter operation (+, -, *, /, or q to quit): ''
        # Question ''Enter first number: '' # Question ''Enter second number: ''
        # Log (''Invalid number! Please enter a valid number.'' @ nl)
        # fst (calculator_loop [''q'']), snd (calculator_loop [''q'']))"
    using t [where rest = "[''q'']" and a = "''10abc''"] h1 h3 h4 by blast
  show ?thesis
    by (intro conjI h1 h3 h4 c1 c2 c3 c4 c5 c6)
qed

text \<open>The claim as it was stated fails in \<open>src/calculator.ts\<close>: after the operand \<open>abc\<close>
  the next question is the one for the operation, not the one for the first number.\<close>

theorem calculator_invalid_operand_counterexample:
  "isNaN (parseFloat ''abc'') \<and>
   calculator_loop [''+'', ''abc''] =
     ([Question ''Enter operation (+, -, *, /, or q to quit): '',
       Question ''Enter first number: '',
       Log (''Invalid number! Please enter a valid number.'' @ nl),
       Question ''Enter operation (+, -, *, /, or q to quit): ''], False)"
  by (simp add: calculator_loop.simps parseFloat_examples operation_prompt_def
      toLowerCase_def upper_case_def lower_case_def)

section \<open>The order of the questions\<close>

text \<open>The prompts of the questions in a trace, in the order they were asked.\<close>

definition questions :: "event list \<Rightarrow> string list" where
  "questions evs = concat (map (\<lambda>ev. case ev of Question q \<Rightarrow> [q] | Log s \<Rightarrow> []) evs)"

lemma questions_simps [simp]:
  "questions [] = []"
  "questions (Question q # evs) = q # questions evs"
  "questions (Log s # evs) = questions evs"
  "questions (evs @ evs') = questions evs @ questions evs'"
  by (simp_all add: questions_def)

lemma ask_number_questions: "\<exists>a. questions (fst (ask_number q xs)) = replicate (Suc a) q"
proof (induction xs)
  case Nil
  have "questions (fst (ask_number q [])) = replicate (Suc 0) q"
    by simp
  then show ?case by blast
next
  case (Cons x xs)
  then obtain a where a: "questions (fst (ask_number q xs)) = replicate (Suc a) q"
    by blast
  show ?case
  proof (cases "isValidNumber x")
    case True
    then have "questions (fst (ask_number q (x # xs))) = replicate (Suc 0) q"
      by simp
    then show ?thesis by blast
  next
    case False
    then have "questions (fst (ask_number q (x # xs))) = replicate (Suc (Suc a)) q"
      using a by (simp add: case_prod_beta)
    then show ?thesis by blast
  qed
qed

lemma ask_operation_questions:
  "\<exists>c. questions (fst (ask_operation xs)) =
         replicate (Suc c) ''Enter the operation (+, -, *, /): ''"
proof (induction xs)
  case Nil
  have "questions (fst (ask_operation [])) =
      replicate (Suc 0) ''Enter the operation (+, -, *, /): ''"
    by simp
  then show ?case by blast
next
  case (Cons x xs)
  then obtain c where c: "questions (fst (ask_operation xs)) =
      replicate (Suc c) ''Enter the operation (+, -, *, /): ''"
    by blast
  show ?case
  proof (cases "isValidOperation x")
    case True
    then have "questions (fst (ask_operation (x # xs))) =
        replicate (Suc 0) ''Enter the operation (+, -, *, /): ''"
      by simp
    then show ?thesis by blast
  next
    case False
    then have "questions (fst (ask_operation (x # xs))) =
        replicate (Suc (Suc c)) ''Enter the operation (+, -, *, /): ''"
      using c by (simp add: case_prod_beta)
    then show ?thesis by blast
  qed
qed

lemma report_questions: "questions (fst (report num1 num2 operation h)) = []"
proof (cases "calculate num1 num2 operation")
  case (Inl e)
  then show ?thesis by (cases e) (simp add: report_def)
next
  case (Inr result)
  then show ?thesis by (simp add: report_def)
qed

lemma performCalculation_questions:
  assumes "performCalculation inputs h = (evs, h', r)"
  shows "\<exists>a b c. questions evs =
           replicate (Suc a) ''Enter the first number: '' @
           replicate b ''Enter the second number: '' @
           replicate c ''Enter the operation (+, -, *, /): '' \<and>
           (0 < c \<longrightarrow> 0 < b) \<and> (r \<noteq> None \<longrightarrow> 0 < c)"
proof -
  obtain ev1 r1 where e1: "ask_number ''Enter the first number: '' inputs = (ev1, r1)"
    by fastforce
  obtain a where a: "questions ev1 = replicate (Suc a) ''Enter the first number: ''"
    using ask_number_questions [of "''Enter the first number: ''" inputs] e1 by auto
  show ?thesis
  proof (cases r1)
    case None
    with assms e1 have "evs = ev1" and "r = None"
      by (simp_all add: performCalculation_def)
    with a have "questions evs =
        replicate (Suc a) ''Enter the first number: '' @
        replicate 0 ''Enter the second number: '' @
        replicate 0 ''Enter the operation (+, -, *, /): '' \<and>
        (0 < (0::nat) \<longrightarrow> 0 < (0::nat)) \<and> (r \<noteq> None \<longrightarrow> 0 < (0::nat))"
      by simp
    then show ?thesis by blast
  next
    case (Some v1)
    obtain num1 in1 where v1: "v1 = (num1, in1)"
      by (cases v1)
    obtain ev2 r2 where e2: "ask_number ''Enter the second number: '' in1 = (ev2, r2)"
      by fastforce
    obtain b where b: "questions ev2 = replicate (Suc b) ''Enter the second number: ''"
      using ask_number_questions [of "''Enter the second number: ''" in1] e2 by auto
    show ?thesis
    proof (cases r2)
      case None
      with assms e1 e2 Some v1 have "evs = ev1 @ ev2" and "r = None"
        by (simp_all add: performCalculation_def)
      with a b have "questions evs =
          replicate (Suc a) ''Enter the first number: '' @
          replicate (Suc b) ''Enter the second number: '' @
          replicate 0 ''Enter the operation (+, -, *, /): '' \<and>
          (0 < (0::nat) \<longrightarrow> 0 < Suc b) \<and> (r \<noteq> None \<longrightarrow> 0 < (0::nat))"
        by simp
      then show ?thesis by blast
    next
      case (Some v2)
      note s2 = Some
      obtain num2 in2 where v2: "v2 = (num2, in2)"
        by (cases v2)
      obtain ev3 r3 where e3: "ask_operation in2 = (ev3, r3)"
        by fastforce
      obtain c where c: "questions ev3 =
          replicate (Suc c) ''Enter the operation (+, -, *, /): ''"
        using ask_operation_questions [of in2] e3 by auto
      have "questions evs =
          replicate (Suc a) ''Enter the first number: '' @
          replicate (Suc b) ''Enter the second number: '' @
          replicate (Suc c) ''Enter the operation (+, -, *, /): ''"
      proof (cases r3)
        case None
        with assms e1 e2 e3 \<open>r1 = Some v1\<close> v1 s2 v2 have "evs = ev1 @ ev2 @ ev3"
          by (simp add: performCalculation_def)
        with a b c show ?thesis by simp
      next
        case (Some v3)
        obtain operation in3 where v3: "v3 = (operation, in3)"
          by (cases v3)
        from assms e1 e2 e3 \<open>r1 = Some v1\<close> v1 s2 v2 Some v3
        have "evs = ev1 @ ev2 @ ev3 @ fst (report num1 num2 operation h)"
          by (auto simp: performCalculation_def case_prod_beta)
        with a b c show ?thesis by (simp add: report_questions)
      qed
      then have "questions evs =
          replicate (Suc a) ''Enter the first number: '' @
          replicate (Suc b) ''Enter the second number: '' @
          replicate (Suc c) ''Enter the operation (+, -, *, /): '' \<and>
          (0 < Suc c \<longrightarrow> 0 < Suc b) \<and> (r \<noteq> None \<longrightarrow> 0 < Suc c)"
        by simp
      then show ?thesis by blast
    qed
  qed
qed

lemma main_loop_unfold:
  assumes "performCalculation inputs h = (evs, h', Some (continueInput # rest))"
  shows "main_loop inputs h =
     (if trim (toLowerCase continueInput) = ''history'' then
        (evs @ [Question continue_prompt] @ showHistory h' @ fst (main_loop rest h'),
         snd (main_loop rest h'))
      else if trim (toLowerCase continueInput) = ''clear'' then
        (evs @ [Question continue_prompt, Log (nl @ ''History cleared!'' @ nl)]
           @ fst (main_loop rest []), snd (main_loop rest []))
      else if wantsToQuit continueInput then
        (evs @ [Question continue_prompt, Log (nl @ ''Goodbye!'')], h', True)
      else
        (evs @ [Question continue_prompt, Log ''''] @ fst (main_loop rest h'),
         snd (main_loop rest h')))"
  by (subst main_loop.simps) (simp add: assms Let_def case_prod_beta clearHistory_def)

lemma main_loop_suspended:
  assumes "performCalculation inputs h = (evs, h', Some [])"
  shows "main_loop inputs h = (evs @ [Question continue_prompt], h', False)"
  by (subst main_loop.simps) (simp add: assms)

lemma main_loop_incomplete:
  assumes "performCalculation inputs h = (evs, h', None)"
  shows "main_loop inputs h = (evs, h', False)"
  by (subst main_loop.simps) (simp add: assms)

lemma performCalculation_valid:
  assumes "isValidNumber x1" and "isValidNumber x2" and "isValidOperation operation"
  shows "performCalculation (x1 # x2 # operation # rest) h =
     ([Question ''Enter the first number: '', Question ''Enter the second number: '',
       Question ''Enter the operation (+, -, *, /): '']
        @ fst (report (parseFloat x1) (parseFloat x2) operation h),
      snd (report (parseFloat x1) (parseFloat x2) operation h), Some rest)"
  using assms by (simp add: performCalculation_def case_prod_beta)

lemma calculator_loop_valid:
  assumes "operation \<in> set [''+'', ''-'', ''*'', ''/'']"
    and "\<not> isNaN (parseFloat x1)" and "\<not> isNaN (parseFloat x2)"
  shows "questions (fst (calculator_loop [operation, x1, x2])) =
     [''Enter operation (+, -, *, /, or q to quit): '', ''Enter first number: '',
      ''Enter second number: '', ''Enter operation (+, -, *, /, or q to quit): '']"
proof -
  have "questions (fst (calculator_loop [operation, x1, x2])) =
      [operation_prompt, ''Enter first number: '', ''Enter second number: '', operation_prompt]"
    using assms toLowerCase_operation [OF assms(1)]
    by (subst calculator_loop.simps)
       (simp add: calculator_loop.simps(1) case_prod_beta Let_def split: sum.splits error.splits)
  then show ?thesis
    by (simp add: operation_prompt_def)
qed

lemma ask_number_refuses:
  "\<not> isValidNumber x \<Longrightarrow>
   ask_number q (x # rest) =
     (Question q # Log (''Error: That is not a valid number. Please try again.'' @ nl)
        # fst (ask_number q rest), snd (ask_number q rest))"
  by (simp add: case_prod_beta del: append.simps)

lemma ask_operation_refuses:
  "\<not> isValidOperation x \<Longrightarrow>
   ask_operation (x # rest) =
     (Question ''Enter the operation (+, -, *, /): ''
        # Log (''Error: Invalid operation! Valid options are: +, -, *, /'' @ nl)
        # fst (ask_operation rest), snd (ask_operation rest))"
  by (simp add: case_prod_beta del: append.simps)

lemma ask_operation_accepts:
  "isValidOperation x \<Longrightarrow>
   ask_operation (x # rest) = ([Question ''Enter the operation (+, -, *, /): ''], Some (x, rest))"
  by simp

lemma ask_number_run:
  assumes "\<forall>y\<in>set bad. \<not> isValidNumber y" and "isValidNumber x"
  shows "ask_number q (bad @ x # rest) =
     (concat (map (\<lambda>y. [Question q,
         Log (''Error: That is not a valid number. Please try again.'' @ nl)]) bad)
        @ [Question q], Some (parseFloat x, rest))"
  using assms by (induction bad) simp_all

lemma ask_operation_run:
  assumes "\<forall>y\<in>set bad. \<not> isValidOperation y" and "isValidOperation x"
  shows "ask_operation (bad @ x # rest) =
     (concat (map (\<lambda>y. [Question ''Enter the operation (+, -, *, /): '',
         Log (''Error: Invalid operation! Valid options are: +, -, *, /'' @ nl)]) bad)
        @ [Question ''Enter the operation (+, -, *, /): ''], Some (x, rest))"
  using assms by (induction bad) simp_all

lemma questions_refusals:
  "questions (concat (map (\<lambda>y. [Question q, Log e]) bad)) = replicate (length bad) q"
  by (induction bad) simp_all

lemma performCalculation_run:
  assumes "\<forall>y\<in>set bad1. \<not> isValidNumber y" and "isValidNumber x1"
    and "\<forall>y\<in>set bad2. \<not> isValidNumber y" and "isValidNumber x2"
    and "\<forall>y\<in>set bad3. \<not> isValidOperation y" and "isValidOperation operation"
  shows "performCalculation (bad1 @ x1 # bad2 @ x2 # bad3 @ operation # rest) h =
     (concat (map (\<lambda>y. [Question ''Enter the first number: '',
          Log (''Error: That is not a valid number. Please try again.'' @ nl)]) bad1)
        @ [Question ''Enter the first number: '']
        @ concat (map (\<lambda>y. [Question ''Enter the second number: '',
          Log (''Error: That is not a valid number. Please try again.'' @ nl)]) bad2)
        @ [Question ''Enter the second number: '']
        @ concat (map (\<lambda>y. [Question ''Enter the operation (+, -, *, /): '',
          Log (''Error: Invalid operation! Valid options are: +, -, *, /'' @ nl)]) bad3)
        @ [Question ''Enter the operation (+, -, *, /): '']
        @ fst (report (parseFloat x1) (parseFloat x2) operation h),
      snd (report (parseFloat x1) (parseFloat x2) operation h), Some rest)"
  by (simp add: performCalculation_def ask_number_run [OF assms(1,2)]
      ask_number_run [OF assms(3,4)] ask_operation_run [OF assms(5,6)] case_prod_beta)

lemma main_loop_run_questions:
  assumes "\<forall>y\<in>set bad1. \<not> isValidNumber y" and "isValidNumber x1"
    and "\<forall>y\<in>set bad2. \<not> isValidNumber y" and "isValidNumber x2"
    and "\<forall>y\<in>set bad3. \<not> isValidOperation y" and "isValidOperation operation"
  shows "questions (fst (main_loop (bad1 @ x1 # bad2 @ x2 # bad3 @ [operation]) h)) =
     replicate (Suc (length bad1)) ''Enter the first number: '' @
     replicate (Suc (length bad2)) ''Enter the second number: '' @
     replicate (Suc (length bad3)) ''Enter the operation (+, -, *, /): '' @
     [continue_prompt]"
  by (simp add: main_loop_suspended [OF performCalculation_run [OF assms]]
      questions_refusals report_questions replicate_append_same)

text \<open>
  Claim C6, as amended. The terminal program of \<open>src/index.ts\<close> asks, in this order, for
  the first number with "Enter the first number: ", for the second number with "Enter
  the second number: ", for the operation with "Enter the operation (+, -, *, /): ",
  each of them once more for every invalid answer it gets (an answer the validator
  refuses is followed by an error line and the same question), and after a completed
  calculation asks the continuation question. The terminal program of
  \<open>src/calculator.ts\<close> asks for the operation first, with "Enter operation (+, -, *, /, or
  q to quit): ", then "Enter first number: " and "Enter second number: ", and has no
  continuation question.
\<close>

theorem questions_in_order:
  "(performCalculation inputs h = (evs, h', r) \<longrightarrow>
      (\<exists>a b c. questions evs =
          replicate (Suc a) ''Enter the first number: '' @
          replicate b ''Enter the second number: '' @
          replicate c ''Enter the operation (+, -, *, /): '' \<and>
          (0 < c \<longrightarrow> 0 < b) \<and> (r \<noteq> None \<longrightarrow> 0 < c))) \<and>
   (performCalculation inputs h = (evs, h', Some []) \<longrightarrow>
      main_loop inputs h = (evs @ [Question continue_prompt], h', False)) \<and>
   (isValidNumber x1 \<and> isValidNumber x2 \<and> isValidOperation operation \<longrightarrow>
      questions (fst (main_loop [x1, x2, operation] h)) =
        [''Enter the first number: '', ''Enter the second number: '',
         ''Enter the operation (+, -, *, /): '', continue_prompt]) \<and>
   (operation \<in> set [''+'', ''-'', ''*'', ''/''] \<and>
    \<not> isNaN (parseFloat x1) \<and> \<not> isNaN (parseFloat x2) \<longrightarrow>
      questions (fst (calculator_loop [operation, x1, x2])) =
        [''Enter operation (+, -, *, /, or q to quit): '', ''Enter first number: '',
         ''Enter second number: '', ''Enter operation (+, -, *, /, or q to quit): '']) \<and>
   (\<not> isValidNumber y \<longrightarrow>
      ask_number q (y # rest) =
        (Question q # Log (''Error: That is not a valid number. Please try again.'' @ nl)
           # fst (ask_number q rest), snd (ask_number q rest))) \<and>
   (isValidNumber y \<longrightarrow>
      ask_number q (y # rest) = ([Question q], Some (parseFloat y, rest))) \<and>
   (\<not> isValidOperation y \<longrightarrow>
      ask_operation (y # rest) =
        (Question ''Enter the operation (+, -, *, /): ''
           # Log (''Error: Invalid operation! Valid options are: +, -, *, /'' @ nl)
           # fst (ask_operation rest), snd (ask_operation rest))) \<and>
   (isValidOperation y \<longrightarrow>
      ask_operation (y # rest) =
        ([Question ''Enter the operation (+, -, *, /): ''], Some (y, rest))) \<and>
   ((\<forall>y\<in>set bad1. \<not> isValidNumber y) \<and> isValidNumber x1 \<and>
    (\<forall>y\<in>set bad2. \<not> isValidNumber y) \<and> isValidNumber x2 \<and>
    (\<forall>y\<in>set bad3. \<not> isValidOperation y) \<and> isValidOperation operation \<longrightarrow>
      performCalculation (bad1 @ x1 # bad2 @ x2 # bad3 @ operation # rest) h =
        (concat (map (\<lambda>y. [Question ''Enter the first number: '',
             Log (''Error: That is not a valid number. Please try again.'' @ nl)]) bad1)
           @ [Question ''Enter the first number: '']
           @ concat (map (\<lambda>y. [Question ''Enter the second number: '',
             Log (''Error: That is not a valid number. Please try again.'' @ nl)]) bad2)
           @ [Question ''Enter the second number: '']
           @ concat (map (\<lambda>y. [Question ''Enter the operation (+, -, *, /): '',
             Log (''Error: Invalid operation! Valid options are: +, -, *, /'' @ nl)]) bad3)
           @ [Question ''Enter the operation (+, -, *, /): '']
           @ fst (report (parseFloat x1) (parseFloat x2) operation h),
         snd (report (parseFloat x1) (parseFloat x2) operation h), Some rest) \<and>
      questions (fst (main_loop (bad1 @ x1 # bad2 @ x2 # bad3 @ [operation]) h)) =
        replicate (Suc (length bad1)) ''Enter the first number: '' @
        replicate (Suc (length bad2)) ''Enter the second number: '' @
        replicate (Suc (length bad3)) ''Enter the operation (+, -, *, /): '' @
        [continue_prompt])"
proof (intro conjI impI)
  assume "performCalculation inputs h = (evs, h', r)"
  then show "\<exists>a b c. questions evs =
          replicate (Suc a) ''Enter the first number: '' @
          replicate b ''Enter the second number: '' @
          replicate c ''Enter the operation (+, -, *, /): '' \<and>
          (0 < c \<longrightarrow> 0 < b) \<and> (r \<noteq> None \<longrightarrow> 0 < c)"
    by (rule performCalculation_questions)
next
  assume "performCalculation inputs h = (evs, h', Some [])"
  then show "main_loop inputs h = (evs @ [Question continue_prompt], h', False)"
    by (rule main_loop_suspended)
next
  assume "isValidNumber x1 \<and> isValidNumber x2 \<and> isValidOperation operation"
  then have "performCalculation [x1, x2, operation] h =
     ([Question ''Enter the first number: '', Question ''Enter the second number: '',
       Question ''Enter the operation (+, -, *, /): '']
        @ fst (report (parseFloat x1) (parseFloat x2) operation h),
      snd (report (parseFloat x1) (parseFloat x2) operation h), Some [])"
    by (simp add: performCalculation_valid)
  then show "questions (fst (main_loop [x1, x2, operation] h)) =
        [''Enter the first number: '', ''Enter the second number: '',
         ''Enter the operation (+, -, *, /): '', continue_prompt]"
    by (simp add: main_loop_suspended report_questions)
next
  assume "operation \<in> set [''+'', ''-'', ''*'', ''/''] \<and>
    \<not> isNaN (parseFloat x1) \<and> \<not> isNaN (parseFloat x2)"
  then show "questions (fst (calculator_loop [operation, x1, x2])) =
        [''Enter operation (+, -, *, /, or q to quit): '', ''Enter first number: '',
         ''Enter second number: '', ''Enter operation (+, -, *, /, or q to quit): '']"
    by (simp add: calculator_loop_valid)
next
  assume "\<not> isValidNumber y"
  then show "ask_number q (y # rest) =
        (Question q # Log (''Error: That is not a valid number. Please try again.'' @ nl)
           # fst (ask_number q rest), snd (ask_number q rest))"
    by (rule ask_number_refuses)
next
  assume "isValidNumber y"
  then show "ask_number q (y # rest) = ([Question q], Some (parseFloat y, rest))"
    by simp
next
  assume "\<not> isValidOperation y"
  then show "ask_operation (y # rest) =
        (Question ''Enter the operation (+, -, *, /): ''
           # Log (''Error: Invalid operation! Valid options are: +, -, *, /'' @ nl)
           # fst (ask_operation rest), snd (ask_operation rest))"
    by (rule ask_operation_refuses)
next
  assume "isValidOperation y"
  then show "ask_operation (y # rest) =
        ([Question ''Enter the operation (+, -, *, /): ''], Some (y, rest))"
    by (rule ask_operation_accepts)
next
  assume a: "(\<forall>y\<in>set bad1. \<not> isValidNumber y) \<and> isValidNumber x1 \<and>
    (\<forall>y\<in>set bad2. \<not> isValidNumber y) \<and> isValidNumber x2 \<and>
    (\<forall>y\<in>set bad3. \<not> isValidOperation y) \<and> isValidOperation operation"
  then show "performCalculation (bad1 @ x1 # bad2 @ x2 # bad3 @ operation # rest) h =
        (concat (map (\<lambda>y. [Question ''Enter the first number: '',
             Log (''Error: That is not a valid number. Please try again.'' @ nl)]) bad1)
           @ [Question ''Enter the first number: '']
           @ concat (map (\<lambda>y. [Question ''Enter the second number: '',
             Log (''Error: That is not a valid number. Please try again.'' @ nl)]) bad2)
           @ [Question ''Enter the second number: '']
           @ concat (map (\<lambda>y. [Question ''Enter the operation (+, -, *, /): '',
             Log (''Error: Invalid operation! Valid options are: +, -, *, /'' @ nl)]) bad3)
           @ [Question ''Enter the operation (+, -, *, /): '']
           @ fst (report (parseFloat x1) (parseFloat x2) operation h),
         snd (report (parseFloat x1) (parseFloat x2) operation h), Some rest)"
    by (intro performCalculation_run) simp_all
  from a show "questions (fst (main_loop (bad1 @ x1 # bad2 @ x2 # bad3 @ [operation]) h)) =
        replicate (Suc (length bad1)) ''Enter the first number: '' @
        replicate (Suc (length bad2)) ''Enter the second number: '' @
        replicate (Suc (length bad3)) ''Enter the operation (+, -, *, /): '' @
        [continue_prompt]"
    by (intro main_loop_run_questions) simp_all
qed

lemma isValidNumber_examples:
  "isValidNumber ''10''" "isValidNumber ''5''" "isValidNumber ''10abc''"
  "isValidNumber ''Infinity''" "isValidNumber ''-Infinity''" "\<not> isValidNumber ''abc''"
  by (simp_all add: isValidNumber_def parseFloat_examples)

lemma report_10_5:
  "report (number_of_int 10) (number_of_int 5) ''+'' h =
     ([Log (nl @ ''Result: 10 + 5 = 15'' @ nl)], h @ [''10 + 5 = 15''])"
  by (simp add: report_def calculate_def add_10_5 calculationString_10_5)

lemma performCalculation_10_5:
  "performCalculation (''10'' # ''5'' # ''+'' # rest) h =
     ([Question ''Enter the first number: '', Question ''Enter the second number: '',
       Question ''Enter the operation (+, -, *, /): '',
       Log (nl @ ''Result: 10 + 5 = 15'' @ nl)],
      h @ [''10 + 5 = 15''], Some rest)"
  by (simp add: performCalculation_valid isValidNumber_examples isValidOperation_def
      parseFloat_examples report_10_5)

theorem questions_in_order_witness:
  "performCalculation [''10'', ''5'', ''+''] [] =
     ([Question ''Enter the first number: '', Question ''Enter the second number: '',
       Question ''Enter the operation (+, -, *, /): '',
       Log (nl @ ''Result: 10 + 5 = 15'' @ nl)], [] @ [''10 + 5 = 15''], Some []) \<and>
   main_loop [''10'', ''5'', ''+''] [] =
     ([Question ''Enter the first number: '', Question ''Enter the second number: '',
       Question ''Enter the operation (+, -, *, /): '',
       Log (nl @ ''Result: 10 + 5 = 15'' @ nl)] @ [Question continue_prompt],
      [] @ [''10 + 5 = 15''], False) \<and>
   (isValidNumber ''10'' \<and> isValidNumber ''5'' \<and> isValidOperation ''+'') \<and>
   questions (fst (main_loop [''10'', ''5'', ''+''] [])) =
     [''Enter the first number: '', ''Enter the second number: '',
      ''Enter the operation (+, -, *, /): '', continue_prompt] \<and>
   (''+'' \<in> set [''+'', ''-'', ''*'', ''/''] \<and>
    \<not> isNaN (parseFloat ''10'') \<and> \<not> isNaN (parseFloat ''5'')) \<and>
   questions (fst (calculator_loop [''+'', ''10'', ''5''])) =
     [''Enter operation (+, -, *, /, or q to quit): '', ''Enter first number: '',
      ''Enter second number: '', ''Enter operation (+, -, *, /, or q to quit): ''] \<and>
   \<not> isValidNumber ''abc'' \<and>
   ask_number ''Enter the second number: '' (''abc'' # [''5'']) =
     (Question ''Enter the second number: ''
        # Log (''Error: That is not a valid number. Please try again.'' @ nl)
        # fst (ask_number ''Enter the second number: '' [''5'']),
      snd (ask_number ''Enter the second number: '' [''5''])) \<and>
   ask_number ''Enter the second number: '' (''5'' # [''+'']) =
     ([Question ''Enter the second number: ''], Some (parseFloat ''5'', [''+''])) \<and>
   \<not> isValidOperation ''x'' \<and>
   ask_operation (''x'' # [''+'']) =
     (Question ''Enter the operation (+, -, *, /): ''
        # Log (''Error: Invalid operation! Valid options are: +, -, *, /'' @ nl)
        # fst (ask_operation [''+'']), snd (ask_operation [''+''])) \<and>
   ask_operation (''+'' # [''q'']) =
     ([Question ''Enter the operation (+, -, *, /): ''], Some (''+'', [''q''])) \<and>
   performCalculation [''abc'', ''10'', ''abc'', ''abc'', ''5'', ''x'', ''+''] [] =
     ([Question ''Enter the first number: '',
       Log (''Error: That is not a valid number. Please try again.'' @ nl),
       Question ''Enter the first number: '',
       Question ''Enter the second number: '',
       Log (''Error: That is not a valid number. Please try again.'' @ nl),
       Question ''Enter the second number: '',
       Log (''Error: That is not a valid number. Please try again.'' @ nl),
       Question ''Enter the second number: '',
       Question ''Enter the operation (+, -, *, /): '',
       Log (''Error: Invalid operation! Valid options are: +, -, *, /'' @ nl),
       Question ''Enter the operation (+, -, *, /): '',
       Log (nl @ ''Result: 10 + 5 = 15'' @ nl)],
      [''10 + 5 = 15''], Some []) \<and>
   questions (fst (main_loop [''abc'', ''10'', ''abc'', ''abc'', ''5'', ''x'', ''+''] [])) =
     [''Enter the first number: '', ''Enter the first number: '',
      ''Enter the second number: '', ''Enter the second number: '',
      ''Enter the second number: '',
      ''Enter the operation (+, -, *, /): '', ''Enter the operation (+, -, *, /): '',
      continue_prompt]"
proof -
  have h1: "performCalculation [''10'', ''5'', ''+''] [] =
     ([Question ''Enter the first number: '', Question ''Enter the second number: '',
       Question ''Enter the operation (+, -, *, /): '',
       Log (nl @ ''Result: 10 + 5 = 15'' @ nl)], [] @ [''10 + 5 = 15''], Some [])"
    by (rule performCalculation_10_5)
  have h2: "isValidNumber ''10'' \<and> isValidNumber ''5'' \<and> isValidOperation ''+''"
    by (simp add: isValidNumber_examples isValidOperation_def)
  have h3: "''+'' \<in> set [''+'', ''-'', ''*'', ''/''] \<and>
      \<not> isNaN (parseFloat ''10'') \<and> \<not> isNaN (parseFloat ''5'')"
    by (simp add: parseFloat_examples)
  have h5: "\<not> isValidNumber ''abc''" and h6: "isValidNumber ''5''"
    by (simp_all add: isValidNumber_examples)
  have h7: "\<not> isValidOperation ''x''" and h8: "isValidOperation ''+''"
    by (simp_all add: isValidOperation_def)
  have h9: "(\<forall>y\<in>set [''abc'']. \<not> isValidNumber y) \<and> isValidNumber ''10'' \<and>
      (\<forall>y\<in>set [''abc'', ''abc'']. \<not> isValidNumber y) \<and> isValidNumber ''5'' \<and>
      (\<forall>y\<in>set [''x'']. \<not> isValidOperation y) \<and> isValidOperation ''+''"
    by (simp add: isValidNumber_examples isValidOperation_def)
  note t = questions_in_order
    [where inputs = "[''10'', ''5'', ''+'']" and h = "[]" and h' = "[] @ [''10 + 5 = 15'']"
       and evs = "[Question ''Enter the first number: '', Question ''Enter the second number: '',
         Question ''Enter the operation (+, -, *, /): '',
         Log (nl @ ''Result: 10 + 5 = 15'' @ nl)]"
       and ?x1.0 = "''10''" and ?x2.0 = "''5''" and operation = "''+''"
       and q = "''Enter the second number: ''" and ?bad1.0 = "[''abc'']"
       and ?bad2.0 = "[''abc'', ''abc'']" and ?bad3.0 = "[''x'']"]
  note t5 = t [where y = "''abc''" and rest = "[''5'']"]
  note t6 = t [where y = "''5''" and rest = "[''+'']"]
  note t7 = t [where y = "''x''" and rest = "[''+'']"]
  note t8 = t [where y = "''+''" and rest = "[''q'']"]
  note t9 = t [where y = "''+''" and rest = "[]"]
  note k2 = conjunct1 [OF conjunct2 [OF t9]]
  note k3 = conjunct1 [OF conjunct2 [OF conjunct2 [OF t9]]]
  note k4 = conjunct1 [OF conjunct2 [OF conjunct2 [OF conjunct2 [OF t9]]]]
  note k5 = conjunct1 [OF conjunct2 [OF conjunct2 [OF conjunct2 [OF conjunct2 [OF t5]]]]]
  note k6 = conjunct1 [OF conjunct2 [OF conjunct2 [OF conjunct2 [OF conjunct2
    [OF conjunct2 [OF t6]]]]]]
  note k7 = conjunct1 [OF conjunct2 [OF conjunct2 [OF conjunct2 [OF conjunct2
    [OF conjunct2 [OF conjunct2 [OF t7]]]]]]]
  note k8 = conjunct1 [OF conjunct2 [OF conjunct2 [OF conjunct2 [OF conjunct2
    [OF conjunct2 [OF conjunct2 [OF conjunct2 [OF t8]]]]]]]]
  note k9 = conjunct2 [OF conjunct2 [OF conjunct2 [OF conjunct2 [OF conjunct2
    [OF conjunct2 [OF conjunct2 [OF conjunct2 [OF t9]]]]]]]]
  note c1 = mp [OF k2 h1]
  note c2 = mp [OF k3 h2]
  note c3 = mp [OF k4 h3]
  note c5 = mp [OF k5 h5]
  note c6 = mp [OF k6 h6]
  note c7 = mp [OF k7 h7]
  note c8 = mp [OF k8 h8]
  note r9 = mp [OF k9 h9]
  have c9: "performCalculation [''abc'', ''10'', ''abc'', ''abc'', ''5'', ''x'', ''+''] [] =
     ([Question ''Enter the first number: '',
       Log (''Error: That is not a valid number. Please try again.'' @ nl),
       Question ''Enter the first number: '',
       Question ''Enter the second number: '',
       Log (''Error: That is not a valid number. Please try again.'' @ nl),
       Question ''Enter the second number: '',
       Log (''Error: That is not a valid number. Please try again.'' @ nl),
       Question ''Enter the second number: '',
       Question ''Enter the operation (+, -, *, /): '',
       Log (''Error: Invalid operation! Valid options are: +, -, *, /'' @ nl),
       Question ''Enter the operation (+, -, *, /): '',
       Log (nl @ ''Result: 10 + 5 = 15'' @ nl)],
      [''10 + 5 = 15''], Some [])"
    using conjunct1 [OF r9] by (simp add: parseFloat_examples report_10_5)
  have c10: "questions (fst (main_loop [''abc'', ''10'', ''abc'', ''abc'', ''5'', ''x'', ''+''] [])) =
     [''Enter the first number: '', ''Enter the first number: '',
      ''Enter the second number: '', ''Enter the second number: '',
      ''Enter the second number: '',
      ''Enter the operation (+, -, *, /): '', ''Enter the operation (+, -, *, /): '',
      continue_prompt]"
    using conjunct2 [OF r9] by simp
  show ?thesis
    by (intro conjI h1 h2 h3 h5 h7 c1 c2 c3 c5 c6 c7 c8 c9 c10)
qed

text \<open>The claim as it was stated fails in \<open>src/calculator.ts\<close>: the first question is the
  one for the operation, and none of the three prompts is the text of the claim.\<close>

theorem calculator_questions_counterexample:
  "calculator_loop [''+'', ''10'', ''5''] =
     ([Question ''Enter operation (+, -, *, /, or q to quit): '',
       Question ''Enter first number: '', Question ''Enter second number: '',
       Log (nl @ ''Result: 10 + 5 = 15'' @ nl),
       Question ''Enter operation (+, -, *, /, or q to quit): ''], False)"
  by (simp add: calculator_loop.simps parseFloat_examples operation_prompt_def
      calculator_result_def add_10_5 calculationString_10_5
      toLowerCase_def upper_case_def lower_case_def)

section \<open>The continuation question\<close>

lemma ask_number_starts: "\<exists>evs. fst (ask_number q xs) = Question q # evs"
  by (cases xs) (simp_all add: case_prod_beta)

lemma performCalculation_starts:
  "\<exists>evs. fst (performCalculation xs h) = Question ''Enter the first number: '' # evs"
proof -
  obtain e r where e: "ask_number ''Enter the first number: '' xs = (e, r)"
    by fastforce
  with ask_number_starts [of "''Enter the first number: ''" xs]
  obtain e' where "e = Question ''Enter the first number: '' # e'"
    by auto
  with e show ?thesis
    by (auto simp: performCalculation_def case_prod_beta split: option.splits prod.splits)
qed

lemma main_loop_starts:
  "\<exists>evs. fst (main_loop xs h) = Question ''Enter the first number: '' # evs"
proof -
  obtain e h' r where p: "performCalculation xs h = (e, h', r)"
    by (cases "performCalculation xs h") auto
  with performCalculation_starts [of xs h]
  obtain e' where e': "e = Question ''Enter the first number: '' # e'"
    by auto
  show ?thesis
  proof (cases r)
    case None
    with p e' show ?thesis by (simp add: main_loop_incomplete)
  next
    case (Some l)
    show ?thesis
    proof (cases l)
      case Nil
      with p e' Some show ?thesis by (simp add: main_loop_suspended)
    next
      case (Cons c rest)
      with p Some have "performCalculation xs h = (e, h', Some (c # rest))"
        by simp
      from main_loop_unfold [OF this] e' show ?thesis
        by simp
    qed
  qed
qed

text \<open>
  Claim C7. After a calculation the terminal program of \<open>src/index.ts\<close> reads one line,
  puts it in lower case and trims it. If the result is "history" it prints the history
  and goes round the loop; if it is "clear" it empties the history and goes round the
  loop; if it is "q", "quit" or "no" the loop ends; every other line, the empty one
  included, only logs an empty line and goes round the loop. Going round the loop starts
  a new calculation with the question for the first number.
\<close>

theorem continuation_tokens:
  assumes "performCalculation inputs h = (evs, h', Some (continueInput # rest))"
  shows
  "(trim (toLowerCase continueInput) = ''history'' \<longrightarrow>
      main_loop inputs h =
        (evs @ [Question continue_prompt] @ showHistory h' @ fst (main_loop rest h'),
         snd (main_loop rest h'))) \<and>
   (trim (toLowerCase continueInput) = ''clear'' \<longrightarrow>
      main_loop inputs h =
        (evs @ [Question continue_prompt, Log (nl @ ''History cleared!'' @ nl)]
           @ fst (main_loop rest []), snd (main_loop rest []))) \<and>
   (trim (toLowerCase continueInput) \<in> {''q'', ''quit'', ''no''} \<longrightarrow>
      main_loop inputs h = (evs @ [Question continue_prompt, Log (nl @ ''Goodbye!'')], h', True)) \<and>
   (trim (toLowerCase continueInput) \<notin> {''history'', ''clear'', ''q'', ''quit'', ''no''} \<longrightarrow>
      main_loop inputs h =
        (evs @ [Question continue_prompt, Log ''''] @ fst (main_loop rest h'),
         snd (main_loop rest h'))) \<and>
   trim (toLowerCase '''') \<notin> {''history'', ''clear'', ''q'', ''quit'', ''no''} \<and>
   (\<exists>evs'. fst (main_loop rest h') = Question ''Enter the first number: '' # evs') \<and>
   (\<exists>evs'. fst (main_loop rest []) = Question ''Enter the first number: '' # evs')"
proof (intro conjI impI)
  assume "trim (toLowerCase continueInput) = ''history''"
  then show "main_loop inputs h =
        (evs @ [Question continue_prompt] @ showHistory h' @ fst (main_loop rest h'),
         snd (main_loop rest h'))"
    by (simp add: main_loop_unfold [OF assms])
next
  assume "trim (toLowerCase continueInput) = ''clear''"
  then show "main_loop inputs h =
        (evs @ [Question continue_prompt, Log (nl @ ''History cleared!'' @ nl)]
           @ fst (main_loop rest []), snd (main_loop rest []))"
    by (simp add: main_loop_unfold [OF assms])
next
  assume "trim (toLowerCase continueInput) \<in> {''q'', ''quit'', ''no''}"
  then show "main_loop inputs h =
      (evs @ [Question continue_prompt, Log (nl @ ''Goodbye!'')], h', True)"
    by (auto simp: main_loop_unfold [OF assms] wantsToQuit_def)
next
  assume "trim (toLowerCase continueInput) \<notin> {''history'', ''clear'', ''q'', ''quit'', ''no''}"
  then show "main_loop inputs h =
        (evs @ [Question continue_prompt, Log ''''] @ fst (main_loop rest h'),
         snd (main_loop rest h'))"
    by (simp add: main_loop_unfold [OF assms] wantsToQuit_def)
next
  show "trim (toLowerCase '''') \<notin> {''history'', ''clear'', ''q'', ''quit'', ''no''}"
    by (simp add: trim_def toLowerCase_def)
next
  show "\<exists>evs'. fst (main_loop rest h') = Question ''Enter the first number: '' # evs'"
    by (rule main_loop_starts)
next
  show "\<exists>evs'. fst (main_loop rest []) = Question ''Enter the first number: '' # evs'"
    by (rule main_loop_starts)
qed

lemma trim_toLowerCase_examples:
  "trim (toLowerCase '' History '') = ''history''"
  "trim (toLowerCase ''CLEAR'') = ''clear''"
  "trim (toLowerCase '' Quit'') = ''quit''"
  "trim (toLowerCase ''yes'') = ''yes''"
  by (simp_all add: trim_def toLowerCase_def upper_case_def lower_case_def is_whitespace_def)

theorem continuation_tokens_witness:
  "performCalculation (''10'' # ''5'' # ''+'' # '' History '' # [''x'']) [] =
     ([Question ''Enter the first number: '', Question ''Enter the second number: '',
       Question ''Enter the operation (+, -, *, /): '',
       Log (nl @ ''Result: 10 + 5 = 15'' @ nl)], [] @ [''10 + 5 = 15''],
      Some ('' History '' # [''x''])) \<and>
   trim (toLowerCase '' History '') = ''history'' \<and>
   main_loop (''10'' # ''5'' # ''+'' # '' History '' # [''x'']) [] =
     ([Question ''Enter the first number: '', Question ''Enter the second number: '',
       Question ''Enter the operation (+, -, *, /): '',
       Log (nl @ ''Result: 10 + 5 = 15'' @ nl)] @ [Question continue_prompt]
        @ showHistory ([] @ [''10 + 5 = 15''])
        @ fst (main_loop [''x''] ([] @ [''10 + 5 = 15''])),
      snd (main_loop [''x''] ([] @ [''10 + 5 = 15'']))) \<and>
   trim (toLowerCase ''CLEAR'') = ''clear'' \<and>
   main_loop (''10'' # ''5'' # ''+'' # ''CLEAR'' # [''x'']) [] =
     ([Question ''Enter the first number: '', Question ''Enter the second number: '',
       Question ''Enter the operation (+, -, *, /): '',
       Log (nl @ ''Result: 10 + 5 = 15'' @ nl)]
        @ [Question continue_prompt, Log (nl @ ''History cleared!'' @ nl)]
        @ fst (main_loop [''x''] []), snd (main_loop [''x''] [])) \<and>
   trim (toLowerCase '' Quit'') \<in> {''q'', ''quit'', ''no''} \<and>
   main_loop (''10'' # ''5'' # ''+'' # '' Quit'' # [''x'']) [] =
     ([Question ''Enter the first number: '', Question ''Enter the second number: '',
       Question ''Enter the operation (+, -, *, /): '',
       Log (nl @ ''Result: 10 + 5 = 15'' @ nl)]
        @ [Question continue_prompt, Log (nl @ ''Goodbye!'')],
      [] @ [''10 + 5 = 15''], True) \<and>
   trim (toLowerCase ''yes'') \<notin> {''history'', ''clear'', ''q'', ''quit'', ''no''} \<and>
   main_loop (''10'' # ''5'' # ''+'' # ''yes'' # [''x'']) [] =
     ([Question ''Enter the first number: '', Question ''Enter the second number: '',
       Question ''Enter the operation (+, -, *, /): '',
       Log (nl @ ''Result: 10 + 5 = 15'' @ nl)]
        @ [Question continue_prompt, Log '''']
        @ fst (main_loop [''x''] ([] @ [''10 + 5 = 15''])),
      snd (main_loop [''x''] ([] @ [''10 + 5 = 15''])))"
proof -
  have h1: "trim (toLowerCase '' History '') = ''history''"
    and h2: "trim (toLowerCase ''CLEAR'') = ''clear''"
    and h3: "trim (toLowerCase '' Quit'') \<in> {''q'', ''quit'', ''no''}"
    and h4: "trim (toLowerCase ''yes'') \<notin> {''history'', ''clear'', ''q'', ''quit'', ''no''}"
    by (simp_all add: trim_toLowerCase_examples)
  note p = performCalculation_10_5 [where h = "[]"]
  note t1 = continuation_tokens [OF p [of "'' History '' # [''x'']"]]
  note t2 = continuation_tokens [OF p [of "''CLEAR'' # [''x'']"]]
  note t3 = continuation_tokens [OF p [of "'' Quit'' # [''x'']"]]
  note t4 = continuation_tokens [OF p [of "''yes'' # [''x'']"]]
  note c1 = mp [OF conjunct1 [OF t1] h1]
  note c2 = mp [OF conjunct1 [OF conjunct2 [OF t2]] h2]
  note c3 = mp [OF conjunct1 [OF conjunct2 [OF conjunct2 [OF t3]]] h3]
  note c4 = mp [OF conjunct1 [OF conjunct2 [OF conjunct2 [OF conjunct2 [OF t4]]]] h4]
  show ?thesis
    by (intro conjI p h1 h2 h3 h4 c1 c2 c3 c4)
qed

section \<open>The scenario of ten plus five\<close>

lemma handleCalculate_10_5:
  "handleCalculate (initial_page ''10'' ''5'' ''+'') =
     (initial_page ''10'' ''5'' ''+'')
       \<lparr>result_textContent := ''10 + 5 = 15'', result_className := ''result'',
        historyList_innerHTML :=
          ''<div class='' @ [CHR 0x22] @ ''history-item'' @ [CHR 0x22] @
          ''>1. 10 + 5 = 15</div>'',
        calculationHistory := [''10 + 5 = 15'']\<rparr>"
  by (simp add: handleCalculate_def initial_page_def parseFloat_examples
      performCalculation_web_def add_10_5 calculationString_10_5 addToHistory_def
      updateHistoryDisplay_def history_item_html_def index_label_0 enumerate_simps)

text \<open>
  Claim C8, as amended. With the operands 10 and 5 and the operation \<open>+\<close> the computation
  succeeds with the result 15. The terminal program of \<open>src/index.ts\<close> logs the line
  "Result: 10 + 5 = 15" between two line breaks; the web page shows "10 + 5 = 15" in its
  result element, without the word "Result". In both, a history that was empty becomes
  the one record "10 + 5 = 15", which is rendered as "1. 10 + 5 = 15".
\<close>

theorem ten_plus_five:
  "calculate (parseFloat ''10'') (parseFloat ''5'') ''+'' = Inr (number_of_int 15) \<and>
   Number_toString (number_of_int 15) = ''15'' \<and>
   performCalculation [''10'', ''5'', ''+''] [] =
     ([Question ''Enter the first number: '', Question ''Enter the second number: '',
       Question ''Enter the operation (+, -, *, /): '',
       Log (nl @ ''Result: 10 + 5 = 15'' @ nl)],
      [''10 + 5 = 15''], Some []) \<and>
   showHistory [''10 + 5 = 15''] =
     [Log (nl @ ''=== Calculation History ===''), Log ''1. 10 + 5 = 15'', Log ''''] \<and>
   performCalculation_web (parseFloat ''10'') (parseFloat ''5'') ''+'' = Inr (number_of_int 15) \<and>
   result_textContent (handleCalculate (initial_page ''10'' ''5'' ''+'')) = ''10 + 5 = 15'' \<and>
   result_className (handleCalculate (initial_page ''10'' ''5'' ''+'')) = ''result'' \<and>
   calculationHistory (handleCalculate (initial_page ''10'' ''5'' ''+'')) = [''10 + 5 = 15''] \<and>
   historyList_innerHTML (handleCalculate (initial_page ''10'' ''5'' ''+'')) =
     ''<div class='' @ [CHR 0x22] @ ''history-item'' @ [CHR 0x22] @ ''>1. 10 + 5 = 15</div>''"
proof (intro conjI)
  show "calculate (parseFloat ''10'') (parseFloat ''5'') ''+'' = Inr (number_of_int 15)"
    by (simp add: calculate_def parseFloat_examples add_10_5)
  show "Number_toString (number_of_int 15) = ''15''"
    by (rule Number_toString_15)
  show "performCalculation [''10'', ''5'', ''+''] [] =
     ([Question ''Enter the first number: '', Question ''Enter the second number: '',
       Question ''Enter the operation (+, -, *, /): '',
       Log (nl @ ''Result: 10 + 5 = 15'' @ nl)],
      [''10 + 5 = 15''], Some [])"
    using performCalculation_10_5 [of "[]" "[]"] by simp
  show "showHistory [''10 + 5 = 15''] =
     [Log (nl @ ''=== Calculation History ===''), Log ''1. 10 + 5 = 15'', Log '''']"
    by (simp add: showHistory_def enumerate_simps index_label_0)
  show "performCalculation_web (parseFloat ''10'') (parseFloat ''5'') ''+'' =
      Inr (number_of_int 15)"
    by (simp add: performCalculation_web_def parseFloat_examples add_10_5)
  show "result_textContent (handleCalculate (initial_page ''10'' ''5'' ''+'')) = ''10 + 5 = 15''"
    by (simp add: handleCalculate_10_5)
  show "result_className (handleCalculate (initial_page ''10'' ''5'' ''+'')) = ''result''"
    by (simp add: handleCalculate_10_5)
  show "calculationHistory (handleCalculate (initial_page ''10'' ''5'' ''+'')) =
      [''10 + 5 = 15'']"
    by (simp add: handleCalculate_10_5)
  show "historyList_innerHTML (handleCalculate (initial_page ''10'' ''5'' ''+'')) =
     ''<div class='' @ [CHR 0x22] @ ''history-item'' @ [CHR 0x22] @ ''>1. 10 + 5 = 15</div>''"
    by (simp add: handleCalculate_10_5)
qed

text \<open>The claim as it was stated fails on the web page: what it displays on success is
  the record alone, not the line "Result: 10 + 5 = 15".\<close>

theorem web_result_text_counterexample:
  "result_textContent (handleCalculate (initial_page ''10'' ''5'' ''+'')) \<noteq>
     ''Result: 10 + 5 = 15''"
  by (simp add: handleCalculate_10_5)

section \<open>Operands that are not finite\<close>

text \<open>
  Claim C10. The validator of the terminal program accepts every answer whose parse is
  not NaN and refuses only those whose parse is NaN; "Infinity" and "-Infinity" parse to
  the two infinities, so they are accepted as operands and reach the arithmetic: the
  calculation of Infinity plus -Infinity is carried out and its result, NaN, is recorded
  in the history.
\<close>

theorem infinite_operands_are_valid:
  "isValidNumber ''Infinity'' \<and> isValidNumber ''-Infinity'' \<and>
   parseFloat ''Infinity'' = Inf False \<and> parseFloat ''-Infinity'' = Inf True \<and>
   \<not> is_finite (parseFloat ''Infinity'') \<and> \<not> is_finite (parseFloat ''-Infinity'') \<and>
   isValidNumber x = (\<not> isNaN (parseFloat x)) \<and>
   ask_number q (x # rest) =
     (if isNaN (parseFloat x)
      then (Question q # Log (''Error: That is not a valid number. Please try again.'' @ nl)
              # fst (ask_number q rest), snd (ask_number q rest))
      else ([Question q], Some (parseFloat x, rest))) \<and>
   ask_number q (''Infinity'' # rest) = ([Question q], Some (Inf False, rest)) \<and>
   ask_number q (''-Infinity'' # rest) = ([Question q], Some (Inf True, rest)) \<and>
   calculate (Inf False) (Inf True) ''+'' = Inr NaN \<and>
   performCalculation [''Infinity'', ''-Infinity'', ''+''] h =
     ([Question ''Enter the first number: '', Question ''Enter the second number: '',
       Question ''Enter the operation (+, -, *, /): '',
       Log (nl @ ''Result: Infinity + -Infinity = NaN'' @ nl)],
      h @ [''Infinity + -Infinity = NaN''], Some [])"
proof (intro conjI)
  show "isValidNumber ''Infinity''" and "isValidNumber ''-Infinity''"
    by (simp_all add: isValidNumber_examples)
  show "parseFloat ''Infinity'' = Inf False" and "parseFloat ''-Infinity'' = Inf True"
    by (simp_all add: parseFloat_examples)
  show "\<not> is_finite (parseFloat ''Infinity'')" and "\<not> is_finite (parseFloat ''-Infinity'')"
    by (simp_all add: parseFloat_examples)
  show "isValidNumber x = (\<not> isNaN (parseFloat x))"
    by (simp add: isValidNumber_def)
  show "ask_number q (x # rest) =
     (if isNaN (parseFloat x)
      then (Question q # Log (''Error: That is not a valid number. Please try again.'' @ nl)
              # fst (ask_number q rest), snd (ask_number q rest))
      else ([Question q], Some (parseFloat x, rest)))"
    by (simp add: isValidNumber_def case_prod_beta)
  show "ask_number q (''Infinity'' # rest) = ([Question q], Some (Inf False, rest))"
    by (simp add: isValidNumber_examples parseFloat_examples)
  show "ask_number q (''-Infinity'' # rest) = ([Question q], Some (Inf True, rest))"
    by (simp add: isValidNumber_examples parseFloat_examples)
  show c: "calculate (Inf False) (Inf True) ''+'' = Inr NaN"
    by (simp add: calculate_def add_def)
  show "performCalculation [''Infinity'', ''-Infinity'', ''+''] h =
     ([Question ''Enter the first number: '', Question ''Enter the second number: '',
       Question ''Enter the operation (+, -, *, /): '',
       Log (nl @ ''Result: Infinity + -Infinity = NaN'' @ nl)],
      h @ [''Infinity + -Infinity = NaN''], Some [])"
    by (simp add: performCalculation_valid isValidNumber_examples isValidOperation_def
        parseFloat_examples report_def c calculationString_def)
qed

section \<open>The heading of the printed history\<close>


section \<open>Adding and subtracting the same number\<close>

text \<open>The rounding is the identity on the fractions that denote a double: first the
  binary logarithm that fixes the exponent, then the rounding itself.\<close>

lemma bitlen_powi_bounds:
  assumes "0 < x"
  shows "(2::real) powi (bitlen x - 1) \<le> real_of_int x \<and> real_of_int x < 2 powi (bitlen x)"
proof -
  from assms have b: "1 \<le> bitlen x"
    by (simp add: bitlen_alt_def)
  from bitlen_bounds [OF assms]
  have "real_of_int (2 ^ nat (bitlen x - 1)) \<le> real_of_int x"
    and "real_of_int x < real_of_int (2 ^ nat (bitlen x))"
    by (simp_all only: of_int_le_iff of_int_less_iff)
  with b show ?thesis
    by (simp add: power_int_nonneg_exp)
qed

lemma powi_unique:
  fixes x y :: real
  assumes "0 < y"
    and "2 powi L * y \<le> x" and "x < 2 powi (L + 1) * y"
    and "2 powi M * y \<le> x" and "x < 2 powi (M + 1) * y"
  shows "L = M"
proof (rule ccontr)
  assume "L \<noteq> M"
  then consider "L + 1 \<le> M" | "M + 1 \<le> L"
    by linarith
  then show False
  proof cases
    case 1
    then have "(2::real) powi (L + 1) \<le> 2 powi M"
      by (intro power_int_increasing) simp_all
    with assms(1) have "2 powi (L + 1) * y \<le> 2 powi M * y"
      by simp
    with assms(3,4) show False by linarith
  next
    case 2
    then have "(2::real) powi (M + 1) \<le> 2 powi L"
      by (intro power_int_increasing) simp_all
    with assms(1) have "2 powi (M + 1) * y \<le> 2 powi L * y"
      by simp
    with assms(2,5) show False by linarith
  qed
qed

lemma ilog2_bounds:
  assumes "0 < p" and "0 < q"
  shows "(2::real) powi (ilog2 p q) * real_of_int q \<le> real_of_int p \<and>
         real_of_int p < 2 powi (ilog2 p q + 1) * real_of_int q"
proof -
  define l where "l = bitlen p - bitlen q"
  note bp = bitlen_powi_bounds [OF assms(1)]
  note bq = bitlen_powi_bounds [OF assms(2)]
  have rq: "0 < real_of_int q" and rp: "0 < real_of_int p"
    using assms by simp_all
  have split_hi: "(2::real) powi (l + 1) = 2 powi (bitlen p) / 2 powi (bitlen q - 1)"
    by (simp add: l_def power_int_diff [symmetric] algebra_simps)
  have split_lo: "(2::real) powi (l - 1) = 2 powi (bitlen p - 1) / 2 powi (bitlen q)"
    by (simp add: l_def power_int_diff [symmetric] algebra_simps)
  have hi: "real_of_int p < 2 powi (l + 1) * real_of_int q"
  proof -
    have "real_of_int p * 2 powi (bitlen q - 1) < 2 powi (bitlen p) * real_of_int q"
    proof -
      have "real_of_int p * 2 powi (bitlen q - 1) \<le> real_of_int p * real_of_int q"
        using bq rp by (intro mult_left_mono) simp_all
      also have "\<dots> < 2 powi (bitlen p) * real_of_int q"
        using bp rq by (intro mult_strict_right_mono) simp_all
      finally show ?thesis .
    qed
    then have "real_of_int p < 2 powi (bitlen p) * real_of_int q / 2 powi (bitlen q - 1)"
      by (simp add: pos_less_divide_eq)
    also have "\<dots> = 2 powi (l + 1) * real_of_int q"
      by (simp add: split_hi)
    finally show ?thesis .
  qed
  have lo: "2 powi (l - 1) * real_of_int q \<le> real_of_int p"
  proof -
    have "2 powi (bitlen p - 1) * real_of_int q \<le> real_of_int p * real_of_int q"
      using bp rq by (intro mult_right_mono) simp_all
    also have "\<dots> \<le> real_of_int p * 2 powi (bitlen q)"
      using bq rp by (intro mult_left_mono) simp_all
    finally have "2 powi (bitlen p - 1) * real_of_int q / 2 powi (bitlen q) \<le> real_of_int p"
      by (simp add: pos_divide_le_eq)
    moreover have "2 powi (bitlen p - 1) * real_of_int q / 2 powi (bitlen q) =
        2 powi (l - 1) * real_of_int q"
      by (simp add: split_lo)
    ultimately show ?thesis by simp
  qed
  have test: "(if 0 \<le> l then q * 2 ^ nat l \<le> p else q \<le> p * 2 ^ nat (- l)) \<longleftrightarrow>
      2 powi l * real_of_int q \<le> real_of_int p"
  proof (cases "0 \<le> l")
    case True
    have "(q * 2 ^ nat l \<le> p) = (real_of_int (q * 2 ^ nat l) \<le> real_of_int p)"
      by (simp only: of_int_le_iff)
    with True show ?thesis
      by (simp add: power_int_nonneg_exp mult.commute)
  next
    case False
    have "(q \<le> p * 2 ^ nat (- l)) = (real_of_int q \<le> real_of_int (p * 2 ^ nat (- l)))"
      by (simp only: of_int_le_iff)
    also have "\<dots> = (real_of_int q \<le> real_of_int p * 2 powi (- l))"
      using False by (simp add: power_int_nonneg_exp)
    also have "\<dots> = (2 powi l * real_of_int q \<le> real_of_int p)"
      by (simp add: power_int_minus field_simps)
    finally show ?thesis
      using False by simp
  qed
  have "ilog2 p q =
      (if (if 0 \<le> l then q * 2 ^ nat l \<le> p else q \<le> p * 2 ^ nat (- l)) then l else l - 1)"
    by (simp add: ilog2_def l_def Let_def)
  then have il: "ilog2 p q = (if 2 powi l * real_of_int q \<le> real_of_int p then l else l - 1)"
    by (simp only: test)
  show ?thesis
  proof (cases "2 powi l * real_of_int q \<le> real_of_int p")
    case True
    with il have "ilog2 p q = l"
      by simp
    with True hi show ?thesis by simp
  next
    case False
    with il have "ilog2 p q = l - 1"
      by simp
    with False lo show ?thesis by simp
  qed
qed


lemma magnitude_real:
  assumes "magnitude m e = (A, C)"
  shows "0 < C" and "real_of_int A = real_of_int m * 2 powi e * real_of_int C"
proof -
  show "0 < C"
    using assms by (auto simp: magnitude_def split: if_splits)
  show "real_of_int A = real_of_int m * 2 powi e * real_of_int C"
  proof (cases "e < 0")
    case True
    with assms have "A = m" and "C = 2 ^ nat (- e)"
      by (simp_all add: magnitude_def)
    moreover have "(2::real) ^ nat (- e) = 2 powi (- e)"
      using True by (simp add: power_int_nonneg_exp)
    then have "(2::real) powi e * 2 ^ nat (- e) = 1"
      by (simp add: power_int_minus)
    ultimately show ?thesis
      by (simp add: mult.assoc)
  next
    case False
    with assms have "A = m * 2 ^ nat e" and "C = 1"
      by (simp_all add: magnitude_def)
    with False show ?thesis
      by (simp add: power_int_nonneg_exp)
  qed
qed

lemma ilog2_magnitude:
  assumes "0 < m" and "magnitude m e = (A, C)" and "0 < q" and "p * C = A * q"
  shows "ilog2 p q = bitlen m - 1 + e"
proof -
  note mr = magnitude_real [OF assms(2)]
  have rq: "0 < real_of_int q" and rc: "0 < real_of_int C"
    using assms(3) mr(1) by simp_all
  have "real_of_int p * real_of_int C = real_of_int A * real_of_int q"
    using assms(4) by (metis of_int_mult)
  then have "real_of_int p * real_of_int C =
      (real_of_int m * 2 powi e * real_of_int q) * real_of_int C"
    by (simp add: mr(2) mult_ac)
  with rc have pv: "real_of_int p = real_of_int m * 2 powi e * real_of_int q"
    by simp
  have "0 < real_of_int m * (2::real) powi e"
    using assms(1) by simp
  with rq pv have "0 < real_of_int p"
    by simp
  then have p: "0 < p"
    by simp
  note bm = bitlen_powi_bounds [OF assms(1)]
  have s: "0 < (2::real) powi e * real_of_int q"
    using rq by simp
  have lo: "2 powi (bitlen m - 1 + e) * real_of_int q \<le> real_of_int p"
  proof -
    have "2 powi (bitlen m - 1) * (2 powi e * real_of_int q) \<le>
        real_of_int m * (2 powi e * real_of_int q)"
      using bm s by (intro mult_right_mono) simp_all
    then show ?thesis
      by (simp add: pv power_int_add mult.assoc)
  qed
  have hi: "real_of_int p < 2 powi (bitlen m - 1 + e + 1) * real_of_int q"
  proof -
    have "real_of_int m * (2 powi e * real_of_int q) <
        2 powi (bitlen m) * (2 powi e * real_of_int q)"
      using bm s by (intro mult_strict_right_mono) simp_all
    moreover have "(2::real) powi (bitlen m - 1 + e + 1) = 2 powi (bitlen m) * 2 powi e"
      by (simp add: power_int_add [symmetric])
    ultimately show ?thesis
      by (simp add: pv mult.assoc)
  qed
  from ilog2_bounds [OF p assms(3)] lo hi rq show ?thesis
    by (intro powi_unique [of "real_of_int q" _ "real_of_int p"]) simp_all
qed

lemma number_of_fraction_exact:
  assumes "is_double (Fin s m e)" and "0 < m" and "magnitude m e = (A, C)"
    and "0 < q" and "p * C = A * q"
  shows "number_of_fraction neg p q = Fin neg m e"
proof -
  from assms(1) have m53: "m < 2 ^ 53" and e_lo: "- 1074 \<le> e" and e_hi: "e \<le> 971"
    and sub: "m < 2 ^ 52 \<Longrightarrow> e = - 1074"
    by simp_all
  have il: "ilog2 p q = bitlen m - 1 + e"
    using assms(2-5) by (rule ilog2_magnitude)
  have bl: "bitlen m \<le> 53"
    using m53 assms(2) by (simp add: bitlen_le_iff_power)
  have ex: "max (ilog2 p q - 52) (- 1074) = e"
  proof (cases "m < 2 ^ 52")
    case True
    with sub have "e = - 1074" by simp
    with bl show ?thesis by (simp add: il)
  next
    case False
    then have "\<not> bitlen m \<le> 52"
      using assms(2) by (simp add: bitlen_le_iff_power)
    with bl have "bitlen m = 53" by simp
    with e_lo show ?thesis by (simp add: il)
  qed
  define n where "n = (if e < 0 then p * 2 ^ nat (- e) else p)"
  define d where "d = (if e < 0 then q else q * 2 ^ nat e)"
  have d: "0 < d"
    using assms(4) by (simp add: d_def)
  have nd: "n = m * d"
    using assms(3,5) by (auto simp: n_def d_def magnitude_def split: if_splits)
  from nd d have dv: "n div d = m" and md: "n mod d = 0"
    by simp_all
  have "number_of_fraction neg p q =
      (let k = n div d; r = n mod d;
           m' = (if d < 2 * r \<or> (2 * r = d \<and> odd k) then k + 1 else k)
       in if m' = 2 ^ 53 then (if 971 < e + 1 then Inf neg else Fin neg (2 ^ 52) (e + 1))
          else if 971 < e then Inf neg else Fin neg m' e)"
    unfolding number_of_fraction_def ex n_def d_def Let_def ..
  also have "\<dots> = Fin neg m e"
    using d m53 e_hi by (simp add: dv md Let_def)
  finally show ?thesis .
qed


text \<open>\<open>exact_sum a b c\<close>: the three Numbers are finite and \<open>c\<close> denotes the real number
  that is the sum of the real numbers \<open>a\<close> and \<open>b\<close> denote (compared as fractions, after
  cross-multiplication). For \<open>c = add a b\<close> it says that the addition neither rounded nor
  overflowed.\<close>

fun exact_sum :: "number \<Rightarrow> number \<Rightarrow> number \<Rightarrow> bool" where
  "exact_sum (Fin s m e) (Fin t n f) (Fin u k g) =
     (let (a, c) = magnitude m e; (b, d) = magnitude n f; (r, h) = magnitude k g
      in signed u r * (c * d) = (signed s a * d + signed t b * c) * h)"
| "exact_sum _ _ _ = False"

lemma magnitude_denominator: "magnitude m e = (A, C) \<Longrightarrow> 0 < C"
  by (auto simp: magnitude_def split: if_splits)

lemma magnitude_numerator: "magnitude m e = (A, C) \<Longrightarrow> (A = 0) = (m = 0) \<and> (0 < A) = (0 < m)"
  by (auto simp: magnitude_def zero_less_mult_iff split: if_splits)

lemma Number_equal_refl: "Number_equal (Fin s m e) (Fin s m e)"
  by (simp add: case_prod_beta)

text \<open>
  Claim C4, as amended. For a finite double \<open>a\<close> and a finite \<open>b\<close> whose sum is computed
  exactly, that is whenever \<open>add a b\<close> is finite and is the real sum of \<open>a\<close> and \<open>b\<close>,
  \<open>subtract (add a b) b\<close> is strictly equal to \<open>a\<close>. (When the sum is rounded or overflows,
  the subtraction need not give \<open>a\<close> back.)
\<close>

theorem subtract_add_exact:
  assumes "is_double a" and "exact_sum a b (add a b)"
  shows "Number_equal (subtract (add a b) b) a"
proof -
  from assms(2) obtain s m e t n f u k g
    where a: "a = Fin s m e" and b: "b = Fin t n f" and c: "add a b = Fin u k g"
    by (cases a; cases b; cases "add a b") simp_all
  obtain A C where mA: "magnitude m e = (A, C)" by fastforce
  obtain B D where mB: "magnitude n f = (B, D)" by fastforce
  obtain K G where mK: "magnitude k g = (K, G)" by fastforce
  note pos = magnitude_denominator [OF mA] magnitude_denominator [OF mB]
    magnitude_denominator [OF mK]
  from assms(2) have ex: "signed u K * (C * D) = (signed s A * D + signed t B * C) * G"
    by (simp add: a b c [unfolded a b] mA mB mK)
  define N where "N = signed u K * D + signed (\<not> t) B * G"
  have sub: "subtract (add a b) b = number_of_signed (u \<and> \<not> t) N (G * D)"
    by (simp add: subtract_def Number_subtract_def c b [symmetric] mB mK N_def)
       (simp add: b mB mK N_def)
  have "N * C = signed u K * (C * D) - signed t B * C * G"
    by (simp add: N_def signed_def algebra_simps)
  also have "\<dots> = signed s A * (G * D)"
    using ex by (simp add: algebra_simps)
  finally have key: "N * C = signed s A * (G * D)" .
  from assms(1) have m0: "0 \<le> m"
    by (simp add: a)
  show ?thesis
  proof (cases "m = 0")
    case True
    with mA have "A = 0"
      by (simp add: magnitude_numerator)
    with key have "N * C = 0"
      by (simp add: signed_def)
    with pos(1) have "N = 0"
      by simp
    then have "subtract (add a b) b = Fin (u \<and> \<not> t) 0 (- 1074)"
      by (simp add: sub number_of_signed_def)
    moreover have "Number_equal (Fin (u \<and> \<not> t) 0 (- 1074)) (Fin s 0 e)"
      by (simp add: case_prod_beta signed_def magnitude_def)
    ultimately show ?thesis
      by (simp only: a True)
  next
    case False
    with m0 have m: "0 < m" by simp
    with mA have A: "0 < A"
      by (simp add: magnitude_numerator)
    have gd: "0 < G * D"
      using pos by simp
    have sgn: "(N < 0) = s" and nz: "N \<noteq> 0" and ab: "\<bar>N\<bar> * C = A * (G * D)"
    proof -
      have p: "0 < A * (G * D)"
        using A gd by simp
      show "(N < 0) = s"
      proof (cases s)
        case True
        with key have "N * C = - (A * (G * D))"
          by (simp add: signed_def)
        with p pos(1) have "N < 0"
          by (metis mult_less_0_iff neg_less_0_iff_less not_less_iff_gr_or_eq)
        with True show ?thesis by simp
      next
        case False
        with key have "N * C = A * (G * D)"
          by (simp add: signed_def)
        with p pos(1) have "0 < N"
          by (metis zero_less_mult_pos2)
        with False show ?thesis by simp
      qed
      then show "N \<noteq> 0"
        using key p pos(1) by (auto simp: signed_def)
      show "\<bar>N\<bar> * C = A * (G * D)"
        using \<open>(N < 0) = s\<close> key by (cases s) (auto simp: signed_def abs_if)
    qed
    have "number_of_fraction (N < 0) \<bar>N\<bar> (G * D) = Fin (N < 0) m e"
      using assms(1) m mA gd ab unfolding a by (rule number_of_fraction_exact)
    with nz sgn have "subtract (add a b) b = Fin s m e"
      by (simp add: sub number_of_signed_def)
    then show ?thesis
      by (simp only: a Number_equal_refl)
  qed
qed

theorem subtract_add_exact_witness:
  "is_double (number_of_int 10) \<and>
   exact_sum (number_of_int 10) (number_of_int 5) (add (number_of_int 10) (number_of_int 5)) \<and>
   Number_equal (subtract (add (number_of_int 10) (number_of_int 5)) (number_of_int 5))
     (number_of_int 10)"
proof -
  have h1: "is_double (number_of_int 10)"
    by code_simp
  have h2: "exact_sum (number_of_int 10) (number_of_int 5)
      (add (number_of_int 10) (number_of_int 5))"
    by code_simp
  from subtract_add_exact [OF h1 h2] h1 h2 show ?thesis
    by (intro conjI)
qed

text \<open>The claim as it was stated, for all finite doubles, fails: the sum of 1 and
  \<open>2 ^ 53 = 9007199254740992\<close> is rounded to \<open>2 ^ 53\<close>, and taking \<open>2 ^ 53\<close> away
  leaves 0; likewise 0.1 plus 0.2 minus 0.2 is 0.10000000000000003.\<close>

theorem subtract_add_counterexample:
  "is_double (number_of_int 1) \<and> is_finite (number_of_int 1) \<and>
   is_double (number_of_int 9007199254740992) \<and> is_finite (number_of_int 9007199254740992) \<and>
   add (number_of_int 1) (number_of_int 9007199254740992) = number_of_int 9007199254740992 \<and>
   subtract (add (number_of_int 1) (number_of_int 9007199254740992))
     (number_of_int 9007199254740992) = pos_zero \<and>
   \<not> Number_equal
       (subtract (add (number_of_int 1) (number_of_int 9007199254740992))
          (number_of_int 9007199254740992))
       (number_of_int 1) \<and>
   is_double (parseFloat ''0.1'') \<and> is_finite (parseFloat ''0.1'') \<and>
   is_double (parseFloat ''0.2'') \<and> is_finite (parseFloat ''0.2'') \<and>
   subtract (add (parseFloat ''0.1'') (parseFloat ''0.2'')) (parseFloat ''0.2'') =
     parseFloat ''0.10000000000000003'' \<and>
   \<not> Number_equal
       (subtract (add (parseFloat ''0.1'') (parseFloat ''0.2'')) (parseFloat ''0.2''))
       (parseFloat ''0.1'')"
  by code_simp

end
